theory Spec2Isabelle
  imports Complex_Main
begin

section \<open>JavaScript Date arithmetic\<close>

text \<open>
  The handlers compute subscription windows with the built-in \<^verbatim>\<open>Date\<close> object
  (\<^verbatim>\<open>setMonth\<close>, \<^verbatim>\<open>setDate\<close>, \<^verbatim>\<open>setFullYear\<close>, \<^verbatim>\<open>setHours\<close>).  A time value is the
  number of milliseconds since 1970-01-01T00:00:00Z; it is modelled as an integer (the
  values the handlers meet are integral and far inside the exactly representable range;
  the one place where a handler produces an Invalid Date is modelled where it occurs).  The abstract operations below carry the names ECMA-262
  gives them.  The local time zone is a fixed offset \<open>tza\<close> in milliseconds (no daylight
  saving), a parameter of every operation that reads or writes local fields.
\<close>

type_synonym time = int

definition msPerDay :: int where
  "msPerDay = 86400000"

definition Day :: "time \<Rightarrow> int" where
  "Day t = t div msPerDay"

definition TimeWithinDay :: "time \<Rightarrow> int" where
  "TimeWithinDay t = t mod msPerDay"

text \<open>Day number of the proleptic Gregorian date \<open>y\<close>-\<open>m\<close>-\<open>d\<close>, with \<open>m\<close> from 1 to 12.\<close>

definition days_from_civil :: "int \<Rightarrow> int \<Rightarrow> int \<Rightarrow> int" where
  "days_from_civil y m d =
     (let y' = (if m \<le> 2 then y - 1 else y);
          era = y' div 400;
          yoe = y' - era * 400;
          doy = (153 * (if m > 2 then m - 3 else m + 9) + 2) div 5 + d - 1;
          doe = yoe * 365 + yoe div 4 - yoe div 100 + doy
      in era * 146097 + doe - 719468)"

text \<open>The inverse: year, month (1 to 12) and day of month of a day number.\<close>

definition civil_from_days :: "int \<Rightarrow> int \<times> int \<times> int" where
  "civil_from_days z0 =
     (let z = z0 + 719468;
          era = z div 146097;
          doe = z - era * 146097;
          yoe = (doe - doe div 1460 + doe div 36524 - doe div 146096) div 365;
          doy = doe - (365 * yoe + yoe div 4 - yoe div 100);
          mp = (5 * doy + 2) div 153;
          d = doy - (153 * mp + 2) div 5 + 1;
          m = (if mp < 10 then mp + 3 else mp - 9)
      in (yoe + era * 400 + (if m \<le> 2 then 1 else 0), m, d))"

definition YearFromTime :: "time \<Rightarrow> int" where
  "YearFromTime t = fst (civil_from_days (Day t))"

definition MonthFromTime :: "time \<Rightarrow> int" where
  "MonthFromTime t = fst (snd (civil_from_days (Day t))) - 1"

definition DateFromTime :: "time \<Rightarrow> int" where
  "DateFromTime t = snd (snd (civil_from_days (Day t)))"

definition MakeTime :: "int \<Rightarrow> int \<Rightarrow> int \<Rightarrow> int \<Rightarrow> int" where
  "MakeTime h m s ms = h * 3600000 + m * 60000 + s * 1000 + ms"

text \<open>\<open>MakeDay\<close> takes a zero-based month that may lie outside 0..11 and a day of month that
  may lie outside the month: both overflow into the neighbouring months and years.\<close>

definition MakeDay :: "int \<Rightarrow> int \<Rightarrow> int \<Rightarrow> int" where
  "MakeDay year month date =
     days_from_civil (year + month div 12) (month mod 12 + 1) 1 + date - 1"

definition MakeDate :: "int \<Rightarrow> int \<Rightarrow> time" where
  "MakeDate day tm = day * msPerDay + tm"

definition LocalTime :: "int \<Rightarrow> time \<Rightarrow> time" where
  "LocalTime tza t = t + tza"

definition UTC :: "int \<Rightarrow> time \<Rightarrow> time" where
  "UTC tza t = t - tza"

definition getMonth :: "int \<Rightarrow> time \<Rightarrow> int" where
  "getMonth tza t = MonthFromTime (LocalTime tza t)"

definition getDate :: "int \<Rightarrow> time \<Rightarrow> int" where
  "getDate tza t = DateFromTime (LocalTime tza t)"

definition getFullYear :: "int \<Rightarrow> time \<Rightarrow> int" where
  "getFullYear tza t = YearFromTime (LocalTime tza t)"

definition setMonth :: "int \<Rightarrow> time \<Rightarrow> int \<Rightarrow> time" where
  "setMonth tza t m =
     (let lt = LocalTime tza t
      in UTC tza (MakeDate (MakeDay (YearFromTime lt) m (DateFromTime lt)) (TimeWithinDay lt)))"

definition setFullYear :: "int \<Rightarrow> time \<Rightarrow> int \<Rightarrow> time" where
  "setFullYear tza t y =
     (let lt = LocalTime tza t
      in UTC tza (MakeDate (MakeDay y (MonthFromTime lt) (DateFromTime lt)) (TimeWithinDay lt)))"

definition setDate :: "int \<Rightarrow> time \<Rightarrow> int \<Rightarrow> time" where
  "setDate tza t d =
     (let lt = LocalTime tza t
      in UTC tza (MakeDate (MakeDay (YearFromTime lt) (MonthFromTime lt) d) (TimeWithinDay lt)))"

definition setHours :: "int \<Rightarrow> time \<Rightarrow> int \<Rightarrow> int \<Rightarrow> int \<Rightarrow> int \<Rightarrow> time" where
  "setHours tza t h m s ms =
     (let lt = LocalTime tza t
      in UTC tza (MakeDate (Day lt) (MakeTime h m s ms)))"
section \<open>Plan catalogue (utils/razorpayService.js)\<close>

text \<open>
  An entry of \<^verbatim>\<open>SUBSCRIPTION_PLANS\<close> has the properties \<^verbatim>\<open>name\<close>, \<^verbatim>\<open>price\<close> (in paise),
  \<^verbatim>\<open>duration_months\<close> and \<^verbatim>\<open>features\<close>.  The routers read further properties of the
  value they find (\<^verbatim>\<open>currency\<close>, \<^verbatim>\<open>validity_type\<close>, \<^verbatim>\<open>validity_period\<close>,
  \<^verbatim>\<open>is_popular\<close>), which the catalogue does not define.  A \<open>plan\<close> is the value of
  \<^verbatim>\<open>SUBSCRIPTION_PLANS[planId]\<close> as the routers see it: each property they read, \<open>None\<close>
  where the read yields \<^verbatim>\<open>undefined\<close>.
\<close>

record plan =
  plan_name :: "string option"
  price :: "int option"
  duration_months :: "int option"
  features :: "string list option"
  currency :: "string option"
  validity_type :: "string option"
  validity_period :: "int option"
  is_popular :: "bool option"

definition catalogue_plan :: "string \<Rightarrow> int \<Rightarrow> int \<Rightarrow> string list \<Rightarrow> plan" where
  "catalogue_plan n p d fs =
     \<lparr>plan_name = Some n, price = Some p, duration_months = Some d, features = Some fs,
      currency = None, validity_type = None, validity_period = None, is_popular = None\<rparr>"

text \<open>
  \<^verbatim>\<open>SUBSCRIPTION_PLANS\<close> is a plain object literal, so indexing it also finds the
  properties every object inherits from \<^verbatim>\<open>Object.prototype\<close>.  Each of these values is
  truthy (eleven functions, and the prototype object itself under \<^verbatim>\<open>__proto__\<close>); of the
  properties the routers read it has only \<^verbatim>\<open>name\<close>, the name of the function.
\<close>

definition inherited_names :: "string list" where
  "inherited_names =
     [''constructor'', ''__defineGetter__'', ''__defineSetter__'', ''hasOwnProperty'',
      ''__lookupGetter__'', ''__lookupSetter__'', ''isPrototypeOf'', ''propertyIsEnumerable'',
      ''toString'', ''valueOf'', ''__proto__'', ''toLocaleString'']"

definition inherited_value :: "string \<Rightarrow> plan" where
  "inherited_value k =
     \<lparr>plan_name = (if k = ''__proto__'' then None
                   else if k = ''constructor'' then Some ''Object'' else Some k),
      price = None, duration_months = None, features = None,
      currency = None, validity_type = None, validity_period = None, is_popular = None\<rparr>"

definition SUBSCRIPTION_PLANS :: "string \<Rightarrow> plan option" where
  "SUBSCRIPTION_PLANS planId =
     (if planId = ''basic'' then
        Some (catalogue_plan ''Basic Plan'' 100 1
          [''Up to 50 invoices per month'', ''Basic invoice templates'',
           ''Customer management'', ''Payment tracking'', ''Email support''])
      else if planId = ''pro'' then
        Some (catalogue_plan ''Pro Plan'' 54900 6
          [''Up to 500 invoices per month'', ''Premium invoice templates'',
           ''Advanced customer management'', ''Payment tracking & reminders'',
           ''Inventory management'', ''Reports & analytics'', ''Priority email support''])
      else if planId = ''premium'' then
        Some (catalogue_plan ''Premium Plan'' 99900 12
          [''Unlimited invoices'', ''All premium templates'',
           ''Advanced customer & vendor management'', ''Automated payment reminders'',
           ''Advanced inventory management'', ''Detailed reports & analytics'',
           ''GST compliance features'', ''Phone & email support''])
      else if planId = ''enterprise'' then
        Some (catalogue_plan ''Enterprise Plan'' 249900 36
          [''Everything in Premium'', ''Multi-location support'', ''Custom invoice templates'',
           ''API access'', ''Advanced integrations'', ''Dedicated account manager'',
           ''24/7 priority support'', ''Custom reporting''])
      else if planId \<in> set inherited_names then Some (inherited_value planId)
      else None)"

subsection \<open>Exceptions\<close>

text \<open>A thrown error with its message (runtime and library messages are shortened).\<close>

datatype exn = Error string | TypeError string | ReferenceError string

fun message :: "exn \<Rightarrow> string" where
  "message (Error m) = m"
| "message (TypeError m) = m"
| "message (ReferenceError m) = m"

subsection \<open>End of the validity window\<close>

text \<open>\<^verbatim>\<open>x || d\<close> on an optional number: \<^verbatim>\<open>undefined\<close> and 0 give the default.\<close>

definition num_or :: "int option \<Rightarrow> int \<Rightarrow> int" where
  "num_or x d = (case x of None \<Rightarrow> d | Some v \<Rightarrow> if v = 0 then d else v)"

text \<open>\<^verbatim>\<open>calculateEndDate\<close> of routes/subscription.js.\<close>

definition sub_calculateEndDate :: "int \<Rightarrow> string \<Rightarrow> time \<Rightarrow> exn + time" where
  "sub_calculateEndDate tza planId startDate =
     (case SUBSCRIPTION_PLANS planId of
        None \<Rightarrow> Inl (Error (''Invalid plan ID: '' @ planId))
      | Some plan \<Rightarrow>
          Inr (if validity_type plan = Some ''monthly''
                 then setMonth tza startDate (getMonth tza startDate + num_or (validity_period plan) 1)
               else if validity_type plan = Some ''yearly''
                 then setFullYear tza startDate (getFullYear tza startDate + num_or (validity_period plan) 1)
               else if validity_type plan = Some ''days''
                 then setDate tza startDate (getDate tza startDate + num_or (validity_period plan) 30)
               else setDate tza startDate (getDate tza startDate + 30)))"

text \<open>
  \<^verbatim>\<open>calculateEndDate\<close> of routes/business.js (the subscription router stored there).  For
  a value without \<^verbatim>\<open>duration_months\<close> the month argument is \<^verbatim>\<open>NaN\<close> and the result is
  an Invalid Date, which is \<open>None\<close> here.
\<close>

definition biz_calculateEndDate :: "int \<Rightarrow> string \<Rightarrow> time \<Rightarrow> exn + time option" where
  "biz_calculateEndDate tza planType startDate =
     (case SUBSCRIPTION_PLANS planType of
        None \<Rightarrow> Inl (Error ''Invalid plan type'')
      | Some plan \<Rightarrow>
          (case duration_months plan of
             None \<Rightarrow> Inr None
           | Some months \<Rightarrow>
               Inr (Some (setHours tza
                            (setMonth tza startDate (getMonth tza startDate + months))
                            23 59 59 999))))"

text \<open>
  What the specification asks of an end date, in its own words: the start date advanced by
  \<open>duration_months\<close> calendar months, at 23:59:59.999 of the computed day.
\<close>

definition spec_end_date :: "int \<Rightarrow> int \<Rightarrow> time \<Rightarrow> time" where
  "spec_end_date tza months start =
     (let lt = LocalTime tza start;
          day = MakeDay (YearFromTime lt) (MonthFromTime lt + months) (DateFromTime lt)
      in UTC tza (MakeDate day (MakeTime 23 59 59 999)))"

section \<open>Users and their subscription slot (models/User.js)\<close>

datatype account_status = AccountActive | AccountInactive | AccountSuspended

datatype sub_status = Active | Expired | Cancelled

record subscription =
  plan_type :: "string option"
  start_date :: "time option"
  end_date :: "time option"
  status :: "sub_status option"
  razorpay_subscription_id :: "string option"
  amount_paid :: "rat option"

text \<open>A user document; \<open>uid\<close> is its \<^verbatim>\<open>_id\<close>.\<close>

record user =
  uid :: nat
  email :: string
  full_name :: string
  account_status :: account_status
  email_verified :: bool
  subscription :: subscription

definition no_subscription :: subscription where
  "no_subscription =
     \<lparr>plan_type = None, start_date = None, end_date = None, status = None,
      razorpay_subscription_id = None, amount_paid = None\<rparr>"

text \<open>\<^verbatim>\<open>userSchema.methods.hasActiveSubscription\<close>; \<open>now\<close> is the value of \<^verbatim>\<open>new Date()\<close>.\<close>

definition hasActiveSubscription :: "user \<Rightarrow> time \<Rightarrow> bool" where
  "hasActiveSubscription u now =
     (case end_date (subscription u) of
        None \<Rightarrow> False
      | Some e \<Rightarrow> status (subscription u) = Some Active \<and> e > now)"

record subscription_info =
  si_plan_type :: "string option"
  si_status :: "sub_status option"
  si_start_date :: "time option"
  si_end_date :: "time option"
  days_remaining :: int

text \<open>\<^verbatim>\<open>userSchema.methods.getSubscriptionInfo\<close>.\<close>

definition getSubscriptionInfo :: "int \<Rightarrow> time \<Rightarrow> user \<Rightarrow> subscription_info" where
  "getSubscriptionInfo tza now u =
     \<lparr>si_plan_type = plan_type (subscription u),
      si_status = status (subscription u),
      si_start_date = start_date (subscription u),
      si_end_date = end_date (subscription u),
      days_remaining =
        (case end_date (subscription u) of
           None \<Rightarrow> 0
         | Some endDate \<Rightarrow>
             (let lt = LocalTime tza now;
                  nowStart = UTC tza (MakeDate
                     (MakeDay (YearFromTime lt) (MonthFromTime lt) (DateFromTime lt)) 0);
                  timeDiff = endDate - nowStart
              in max 0 (timeDiff div msPerDay)))\<rparr>"

section \<open>Transaction ledger (models/Subscription.js)\<close>

datatype txn_status = Pending | Completed | Failed | Refunded

record txn =
  transaction_id :: string
  user_id :: nat
  plan_id :: string
  razorpay_payment_id :: "string option"
  razorpay_order_id :: "string option"
  razorpay_signature :: "string option"
  amount :: int
  txn_currency :: string
  txn_status :: txn_status
  created_at :: time
  updated_at :: time

text \<open>
  The database: the ledger collection and the user collection, each a list of documents in
  insertion order.  Storage operations themselves are taken to succeed; what the handlers
  do when a document is absent, and what the schema refuses, is modelled.
\<close>

record db =
  ledger :: "txn list"
  users :: "user list"

text \<open>\<^verbatim>\<open>Model.findOne(filter)\<close>: the position of the first document that matches.\<close>

fun findOne :: "('a \<Rightarrow> bool) \<Rightarrow> 'a list \<Rightarrow> nat option" where
  "findOne P [] = None"
| "findOne P (x # xs) = (if P x then Some 0 else map_option Suc (findOne P xs))"

text \<open>\<^verbatim>\<open>User.findById(id)\<close>.\<close>

definition findById :: "nat \<Rightarrow> user list \<Rightarrow> user option" where
  "findById k us = find (\<lambda>u. uid u = k) us"

text \<open>\<^verbatim>\<open>User.findByIdAndUpdate(id, {$set: {subscription: data}}, {new: true})\<close>: the updated
  document (\<^verbatim>\<open>null\<close> when there is none with that id) and the collection afterwards.\<close>

definition findByIdAndUpdate :: "nat \<Rightarrow> subscription \<Rightarrow> user list \<Rightarrow> user option \<times> user list" where
  "findByIdAndUpdate k subscriptionData us =
     (case findOne (\<lambda>u. uid u = k) us of
        None \<Rightarrow> (None, us)
      | Some j \<Rightarrow>
          (Some ((us ! j)\<lparr>subscription := subscriptionData\<rparr>),
           us[j := (us ! j)\<lparr>subscription := subscriptionData\<rparr>]))"

section \<open>Environment of a request\<close>

record gateway_order =
  order_id :: string
  order_amount :: int
  order_currency :: "string option"

record payment =
  payment_id :: string
  payment_order_id :: string
  payment_status :: string

text \<open>
  Everything a handler reads from outside the database: the clock, the time zone, the
  configured secrets, HMAC-SHA256 with hex digest (a parameter: the handlers only compare
  its result against the supplied signature), the answers of the payment gateway (\<open>Inl\<close>
  is a rejected call, with the error's message; an order is requested with an amount and a
  currency) and the generated transaction identifier.
\<close>

record env =
  now :: time
  tza :: int
  RAZORPAY_KEY_SECRET :: "string option"
  RAZORPAY_KEY_ID :: "string option"
  RAZORPAY_WEBHOOK_SECRET :: "string option"
  hmac_sha256_hex :: "string \<Rightarrow> string \<Rightarrow> string"
  orders_create :: "int option \<Rightarrow> string option \<Rightarrow> string + gateway_order"
  orders_fetchPayments :: "string \<Rightarrow> string + payment list"
  payments_fetch :: "string \<Rightarrow> string + payment"
  generated_transaction_id :: string

text \<open>Truthiness of an optional string: \<^verbatim>\<open>undefined\<close> and the empty string are falsy.\<close>

definition truthy :: "string option \<Rightarrow> bool" where
  "truthy x = (case x of None \<Rightarrow> False | Some v \<Rightarrow> v \<noteq> [])"

section \<open>Responses and notifications\<close>

text \<open>Decimal digits of a number, as a template literal prints an integer.\<close>

fun dec_nat :: "nat \<Rightarrow> string" where
  "dec_nat n =
     (if n < 10 then [''0123456789'' ! n]
      else dec_nat (n div 10) @ [''0123456789'' ! (n mod 10)])"

declare dec_nat.simps [simp del]

definition dec_int :: "int \<Rightarrow> string" where
  "dec_int i = (if i < 0 then CHR ''-'' # dec_nat (nat (- i)) else dec_nat (nat i))"

text \<open>\<^verbatim>\<open>price / 100\<close> on an optional number: \<^verbatim>\<open>undefined / 100\<close> is \<^verbatim>\<open>NaN\<close>, here \<open>None\<close>.\<close>

definition rupees :: "int option \<Rightarrow> rat option" where
  "rupees p = map_option (\<lambda>v. of_int v / 100) p"

text \<open>\<^verbatim>\<open>formatPlanForClient\<close> of routes/subscription.js.\<close>

record sub_plan_details =
  spd_id :: string
  spd_name :: "string option"
  spd_price :: "rat option"
  spd_currency :: "string option"
  spd_validity_period :: "int option"
  spd_validity_type :: "string option"
  spd_features :: "string list"
  spd_is_popular :: bool

definition sub_formatPlanForClient :: "string \<Rightarrow> plan \<Rightarrow> sub_plan_details" where
  "sub_formatPlanForClient planId plan =
     \<lparr>spd_id = planId,
      spd_name = plan_name plan,
      spd_price = rupees (price plan),
      spd_currency = currency plan,
      spd_validity_period = validity_period plan,
      spd_validity_type = validity_type plan,
      spd_features = (case features plan of None \<Rightarrow> [] | Some fs \<Rightarrow> fs),
      spd_is_popular = (case is_popular plan of None \<Rightarrow> False | Some b \<Rightarrow> b)\<rparr>"

text \<open>\<^verbatim>\<open>getPlanDetails\<close> of routes/subscription.js.\<close>

definition sub_getPlanDetails :: "string \<Rightarrow> sub_plan_details option" where
  "sub_getPlanDetails planId =
     (case SUBSCRIPTION_PLANS planId of
        None \<Rightarrow> None
      | Some plan \<Rightarrow> Some (sub_formatPlanForClient planId plan))"

text \<open>\<^verbatim>\<open>formatPlanForClient\<close> of routes/business.js.\<close>

record biz_plan_details =
  bpd_plan_id :: string
  bpd_name :: "string option"
  bpd_price :: "int option"
  bpd_price_inr :: "rat option"
  bpd_duration_months :: "int option"
  bpd_features :: "string list option"
  bpd_duration_text :: string

definition biz_formatPlanForClient :: "string \<Rightarrow> plan \<Rightarrow> biz_plan_details" where
  "biz_formatPlanForClient planId plan =
     \<lparr>bpd_plan_id = planId,
      bpd_name = plan_name plan,
      bpd_price = price plan,
      bpd_price_inr = rupees (price plan),
      bpd_duration_months = duration_months plan,
      bpd_features = features plan,
      bpd_duration_text =
        (if duration_months plan = Some 1 then ''1 month''
         else if duration_months plan = Some 12 then ''1 year''
         else if duration_months plan = Some 36 then ''3 years''
         else (case duration_months plan of
                 None \<Rightarrow> ''undefined''
               | Some d \<Rightarrow> dec_int d) @ '' months'')\<rparr>"

text \<open>The JSON bodies the handlers send, one constructor for each shape.\<close>

datatype body =
    Failure string
  | AlreadyActive string subscription_info
  | SubOrderData string int "string option" string sub_plan_details "string option"
  | BizOrderData string int "string option" string biz_plan_details "string option"
  | SubVerifyData string string subscription_info "sub_plan_details option" "string option"
  | BizVerifyData string string subscription_info "biz_plan_details option"
  | HookStatus string
  | HookError string

type_synonym response = "nat \<times> body"

text \<open>The subscription information a response body carries, if it carries one.\<close>

fun subscription_info_of :: "body \<Rightarrow> subscription_info option" where
  "subscription_info_of (AlreadyActive m info) = Some info"
| "subscription_info_of (SubVerifyData m t info d v) = Some info"
| "subscription_info_of (BizVerifyData m t info d) = Some info"
| "subscription_info_of (Failure m) = None"
| "subscription_info_of (SubOrderData oid a c t d k) = None"
| "subscription_info_of (BizOrderData oid a c t d k) = None"
| "subscription_info_of (HookStatus st) = None"
| "subscription_info_of (HookError m) = None"

text \<open>The arguments of a call to \<^verbatim>\<open>sendSubscriptionEmail\<close>.\<close>

record notification =
  to_email :: string
  to_name :: string
  n_plan_name :: "string option"
  n_amount :: rat
  n_end_date :: time

definition subscriptionData :: "string \<Rightarrow> time \<Rightarrow> time \<Rightarrow> string option \<Rightarrow> int \<Rightarrow> subscription" where
  "subscriptionData planId startDate endDate paymentId amt =
     \<lparr>plan_type = Some planId, start_date = Some startDate, end_date = Some endDate,
      status = Some Active, razorpay_subscription_id = paymentId,
      amount_paid = Some (of_int amt / 100)\<rparr>"

section \<open>The \<^verbatim>\<open>auth\<close> middleware (middleware/auth.js)\<close>

text \<open>What the bearer token of a request amounts to: absent, rejected by \<^verbatim>\<open>jwt.verify\<close> as
  malformed or as expired, or verified with the \<^verbatim>\<open>userId\<close> it carries.\<close>

datatype credential = NoToken | InvalidToken | ExpiredToken | Token nat

text \<open>The middleware either answers itself or hands the stored user on as \<^verbatim>\<open>req.user\<close>.\<close>

definition auth :: "db \<Rightarrow> credential \<Rightarrow> response + user" where
  "auth s c =
     (case c of
        NoToken \<Rightarrow> Inl (401, Failure ''Access denied. No token provided.'')
      | InvalidToken \<Rightarrow> Inl (401, Failure ''Invalid token.'')
      | ExpiredToken \<Rightarrow> Inl (401, Failure ''Token expired. Please login again.'')
      | Token userId \<Rightarrow>
          (case findById userId (users s) of
             None \<Rightarrow> Inl (401, Failure ''Invalid token. User not found.'')
           | Some user \<Rightarrow>
               if account_status user \<noteq> AccountActive
               then Inl (401, Failure ''Account is inactive. Please contact support.'')
               else Inr user))"

section \<open>routes/subscription.js\<close>

subsection \<open>Order creation\<close>

text \<open>
  \<^verbatim>\<open>POST /create-order\<close>, after the \<^verbatim>\<open>auth\<close> middleware has loaded \<open>ru\<close> as
  \<^verbatim>\<open>req.user\<close>.  The receipt and the notes sent along to the gateway are opaque to the
  handler and do not appear in the gateway's modelled answer.  The ledger schema requires
  \<^verbatim>\<open>amount\<close>: creating the entry without one throws a validation error.
\<close>

definition sub_create_order :: "env \<Rightarrow> user \<Rightarrow> string option \<Rightarrow> db \<Rightarrow> response \<times> db" where
  "sub_create_order e ru plan_id_field s =
     (if \<not> truthy plan_id_field then ((400, Failure ''Plan ID is required''), s)
      else
        (let planId = the plan_id_field in
         case SUBSCRIPTION_PLANS planId of
           None \<Rightarrow> ((400, Failure ''Invalid plan selected''), s)
         | Some plan \<Rightarrow>
             (case orders_create e (price plan) (currency plan) of
                Inl err \<Rightarrow> ((500, Failure (''Failed to create order: '' @ err)), s)
              | Inr order \<Rightarrow>
                  (case price plan of
                     None \<Rightarrow>
                       ((500, Failure (''Failed to create order: '' @
                           message (Error ''SubscriptionTransaction validation failed: amount''))),
                        s)
                   | Some amt \<Rightarrow>
                       (let transaction =
                          \<lparr>transaction_id = generated_transaction_id e,
                           user_id = uid ru,
                           plan_id = planId,
                           razorpay_payment_id = None,
                           razorpay_order_id = Some (order_id order),
                           razorpay_signature = None,
                           amount = amt,
                           txn_currency = (case currency plan of None \<Rightarrow> ''INR'' | Some c \<Rightarrow> c),
                           txn_status = Pending,
                           created_at = now e,
                           updated_at = now e\<rparr>
                        in ((200, SubOrderData (order_id order) amt (currency plan)
                                   (transaction_id transaction)
                                   (sub_formatPlanForClient planId plan) (RAZORPAY_KEY_ID e)),
                            s\<lparr>ledger := ledger s @ [transaction]\<rparr>))))))"

subsection \<open>Client verification\<close>

record verify_req =
  req_order_id :: "string option"
  req_payment_id :: "string option"
  req_signature :: "string option"
  req_plan_id :: "string option"

text \<open>\<^verbatim>\<open>verifyPaymentSignature\<close>: a missing key secret makes \<^verbatim>\<open>createHmac\<close> throw, which
  the helper catches and turns into \<^verbatim>\<open>false\<close>.\<close>

definition verifyPaymentSignature :: "env \<Rightarrow> string \<Rightarrow> string \<Rightarrow> string \<Rightarrow> bool" where
  "verifyPaymentSignature e orderId paymentId signature =
     (case RAZORPAY_KEY_SECRET e of
        None \<Rightarrow> False
      | Some k \<Rightarrow> hmac_sha256_hex e k (orderId @ ''|'' @ paymentId) = signature)"

text \<open>Method 1 of the handler: attempted only when payment id and signature are both supplied.\<close>

definition sub_signature_verified :: "env \<Rightarrow> string \<Rightarrow> string option \<Rightarrow> string option \<Rightarrow> bool" where
  "sub_signature_verified e orderId paymentId signature =
     (truthy paymentId \<and> truthy signature \<and>
      verifyPaymentSignature e orderId (the paymentId) (the signature))"

text \<open>Method 2: the payments the gateway lists for the order, accepted on the first one with
  status \<^verbatim>\<open>captured\<close>; a rejected gateway call leaves the payment unverified.\<close>

definition sub_api_verified :: "env \<Rightarrow> string \<Rightarrow> payment option" where
  "sub_api_verified e orderId =
     (case orders_fetchPayments e orderId of
        Inl err \<Rightarrow> None
      | Inr payments \<Rightarrow> find (\<lambda>p. payment_status p = ''captured'') payments)"

text \<open>Both methods in order; the result is \<^verbatim>\<open>(verificationMethod, finalPaymentId)\<close> when
  \<^verbatim>\<open>paymentVerified\<close> ends up true.\<close>

definition sub_verify :: "env \<Rightarrow> string \<Rightarrow> string option \<Rightarrow> string option \<Rightarrow> (string \<times> string option) option" where
  "sub_verify e orderId paymentId signature =
     (if sub_signature_verified e orderId paymentId signature then Some (''signature'', paymentId)
      else case sub_api_verified e orderId of
             None \<Rightarrow> None
           | Some capturedPayment \<Rightarrow> Some (''api_fetch'', Some (payment_id capturedPayment)))"

text \<open>
  The handler of \<^verbatim>\<open>POST /verify-payment\<close>.  It runs inside a database transaction: its
  writes become visible only at \<^verbatim>\<open>commitTransaction\<close>, and every exit before that
  aborts, so those exits return the database they were given.  The third component lists
  the calls to \<^verbatim>\<open>sendSubscriptionEmail\<close>.
\<close>

definition sub_verify_payment :: "env \<Rightarrow> user \<Rightarrow> verify_req \<Rightarrow> db \<Rightarrow> response \<times> db \<times> notification list" where
  "sub_verify_payment e ru r s =
     (if \<not> truthy (req_order_id r) \<or> \<not> truthy (req_plan_id r)
      then ((400, Failure ''Order ID and Plan ID are required''), s, [])
      else
        (let orderId = the (req_order_id r); planId = the (req_plan_id r) in
         case findOne (\<lambda>t. razorpay_order_id t = Some orderId \<and> user_id t = uid ru) (ledger s) of
           None \<Rightarrow> ((404, Failure ''Transaction not found''), s, [])
         | Some i \<Rightarrow>
             (let transaction = ledger s ! i in
              if txn_status transaction = Completed then
                (case findById (uid ru) (users s) of
                   None \<Rightarrow>
                     ((500, Failure (''Payment verification failed: '' @
                         message (TypeError ''Cannot read properties of null''))), s, [])
                 | Some u \<Rightarrow>
                     ((200, SubVerifyData ''Payment already verified and subscription is active''
                              (transaction_id transaction)
                              (getSubscriptionInfo (tza e) (now e) u)
                              (sub_getPlanDetails planId) None), s, []))
              else
                (case sub_verify e orderId (req_payment_id r) (req_signature r) of
                   None \<Rightarrow>
                     ((400, Failure
                         ''Payment verification failed. Please try again or contact support.''),
                      s, [])
                 | Some (verificationMethod, finalPaymentId) \<Rightarrow>
                     (let transaction' = transaction
                            \<lparr>razorpay_payment_id := finalPaymentId,
                             razorpay_signature :=
                               (if truthy (req_signature r) then req_signature r
                                else Some (verificationMethod @ ''_verified'')),
                             txn_status := Completed,
                             updated_at := now e\<rparr>;
                          startDate = now e
                      in case sub_calculateEndDate (tza e) planId startDate of
                           Inl err \<Rightarrow>
                             ((500, Failure (''Payment verification failed: '' @ message err)),
                              s, [])
                         | Inr endDate \<Rightarrow>
                             (case findByIdAndUpdate (uid ru)
                                     (subscriptionData planId startDate endDate
                                        finalPaymentId (amount transaction)) (users s) of
                                (None, users') \<Rightarrow>
                                  ((500, Failure (''Payment verification failed: '' @
                                      message (Error ''Failed to update user subscription''))),
                                   s, [])
                              | (Some updatedUser, users') \<Rightarrow>
                                  (if \<not> hasActiveSubscription updatedUser (now e) then
                                     ((500, Failure (''Payment verification failed: '' @
                                         message (Error
                                           ''Subscription activation verification failed''))),
                                      s, [])
                                   else
                                     ((200, SubVerifyData
                                         ''Payment verified and subscription activated successfully!''
                                         (transaction_id transaction)
                                         (getSubscriptionInfo (tza e) (now e) updatedUser)
                                         (sub_getPlanDetails planId)
                                         (Some verificationMethod)),
                                      s\<lparr>ledger := (ledger s)[i := transaction'],
                                        users := users'\<rparr>,
                                      [\<lparr>to_email = email ru, to_name = full_name ru,
                                        n_plan_name =
                                          Option.bind (sub_getPlanDetails planId) spd_name,
                                        n_amount = of_int (amount transaction) / 100,
                                        n_end_date = endDate\<rparr>]))))))))"

text \<open>The route: the middleware, then the handler.\<close>

definition sub_verify_payment_route :: "env \<Rightarrow> credential \<Rightarrow> verify_req \<Rightarrow> db \<Rightarrow> response \<times> db \<times> notification list" where
  "sub_verify_payment_route e c r s =
     (case auth s c of
        Inl resp \<Rightarrow> (resp, s, [])
      | Inr ru \<Rightarrow> sub_verify_payment e ru r s)"

subsection \<open>Gateway webhook\<close>

record payment_entity =
  entity_id :: "string option"
  entity_order_id :: "string option"

text \<open>The request: the signature header, \<^verbatim>\<open>JSON.stringify(req.body)\<close>, and the two parts
  of the body the handler reads (\<^verbatim>\<open>event\<close> and \<^verbatim>\<open>payload?.payment?.entity\<close>).\<close>

record webhook_req =
  x_razorpay_signature :: "string option"
  body_json :: string
  event :: "string option"
  hook_payment :: "payment_entity option"

text \<open>The signature gate: a mismatch is rejected only when a secret is configured and a
  signature header is present.\<close>

definition sub_webhook_rejected :: "env \<Rightarrow> webhook_req \<Rightarrow> bool" where
  "sub_webhook_rejected e r =
     (truthy (RAZORPAY_WEBHOOK_SECRET e) \<and> truthy (x_razorpay_signature r) \<and>
      hmac_sha256_hex e (the (RAZORPAY_WEBHOOK_SECRET e)) (body_json r)
        \<noteq> the (x_razorpay_signature r))"

text \<open>\<^verbatim>\<open>SubscriptionTransaction.updateOne({razorpay_order_id}, {$set: {status: 'failed', ...}})\<close>:
  the first matching document, whatever its present status.\<close>

definition mark_failed :: "time \<Rightarrow> string \<Rightarrow> txn list \<Rightarrow> txn list" where
  "mark_failed t orderId l =
     (case findOne (\<lambda>x. razorpay_order_id x = Some orderId) l of
        None \<Rightarrow> l
      | Some i \<Rightarrow> l[i := (l ! i)\<lparr>txn_status := Failed, updated_at := t\<rparr>])"

text \<open>
  \<^verbatim>\<open>POST /webhook\<close>.  No database transaction is opened here: each write is in the store
  as soon as it is made, so the exit through the \<^verbatim>\<open>catch\<close> block returns the database
  as written so far.  \<^verbatim>\<open>User.findByIdAndUpdate\<close> on an absent user changes nothing and
  its result is not inspected.
\<close>

definition sub_webhook :: "env \<Rightarrow> webhook_req \<Rightarrow> db \<Rightarrow> response \<times> db" where
  "sub_webhook e r s =
     (if sub_webhook_rejected e r then ((400, HookError ''Invalid signature''), s)
      else if event r = Some ''payment.captured'' then
        (case hook_payment r of
           None \<Rightarrow> ((200, HookStatus ''ignored''), s)
         | Some payment \<Rightarrow>
             (case findOne (\<lambda>t. razorpay_order_id t = entity_order_id payment) (ledger s) of
                None \<Rightarrow> ((200, HookStatus ''transaction_not_found''), s)
              | Some i \<Rightarrow>
                  (let transaction = ledger s ! i in
                   if txn_status transaction = Completed
                   then ((200, HookStatus ''already_completed''), s)
                   else
                     (let transaction' = transaction
                            \<lparr>razorpay_payment_id := entity_id payment,
                             razorpay_signature := Some ''webhook_verified'',
                             txn_status := Completed,
                             updated_at := now e\<rparr>;
                          s1 = s\<lparr>ledger := (ledger s)[i := transaction']\<rparr>;
                          startDate = now e
                      in case sub_calculateEndDate (tza e) (plan_id transaction) startDate of
                           Inl err \<Rightarrow> ((500, HookError ''Webhook processing failed''), s1)
                         | Inr endDate \<Rightarrow>
                             ((200, HookStatus ''completed''),
                              s1\<lparr>users := snd (findByIdAndUpdate (user_id transaction)
                                     (subscriptionData (plan_id transaction) startDate
                                        endDate (entity_id payment) (amount transaction))
                                     (users s1))\<rparr>)))))
      else if event r = Some ''payment.failed'' then
        (case hook_payment r of
           None \<Rightarrow> ((200, HookStatus ''payment_failed_processed''), s)
         | Some payment \<Rightarrow>
             (if truthy (entity_order_id payment)
              then ((200, HookStatus ''payment_failed_processed''),
                    s\<lparr>ledger := mark_failed (now e) (the (entity_order_id payment)) (ledger s)\<rparr>)
              else ((200, HookStatus ''payment_failed_processed''), s)))
      else ((200, HookStatus ''ignored''), s))"

subsection \<open>The capture branch of the webhook in two steps\<close>

text \<open>
  The capture branch awaits the database three times: \<^verbatim>\<open>findOne\<close>, then after the
  status test \<^verbatim>\<open>transaction.save()\<close>, then \<^verbatim>\<open>User.findByIdAndUpdate\<close>.  Other requests
  are served between the awaits.  The first step is everything up to the status test, on
  the database as it is when \<^verbatim>\<open>findOne\<close> answers: it either answers the request or goes
  on with the position and the contents of the document it read.
\<close>

definition sub_capture_read :: "payment_entity \<Rightarrow> db \<Rightarrow> response + nat \<times> txn" where
  "sub_capture_read payment s =
     (case findOne (\<lambda>t. razorpay_order_id t = entity_order_id payment) (ledger s) of
        None \<Rightarrow> Inl (200, HookStatus ''transaction_not_found'')
      | Some i \<Rightarrow>
          (let transaction = ledger s ! i in
           if txn_status transaction = Completed
           then Inl (200, HookStatus ''already_completed'')
           else Inr (i, transaction)))"

text \<open>
  The second step is the rest of the branch, on the database as it is when the writes
  arrive: \<^verbatim>\<open>save()\<close> sets the four modified paths of the stored document, whatever that
  document's status has become, and the subscription is computed from the document as it
  was read and from the clock at this step.
\<close>

definition sub_capture_write :: "env \<Rightarrow> payment_entity \<Rightarrow> nat \<times> txn \<Rightarrow> db \<Rightarrow> response \<times> db" where
  "sub_capture_write e payment read s =
     (let i = fst read; transaction = snd read;
          s1 = s\<lparr>ledger := (ledger s)[i := (ledger s ! i)
                  \<lparr>razorpay_payment_id := entity_id payment,
                   razorpay_signature := Some ''webhook_verified'',
                   txn_status := Completed,
                   updated_at := now e\<rparr>]\<rparr>;
          startDate = now e
      in case sub_calculateEndDate (tza e) (plan_id transaction) startDate of
           Inl err \<Rightarrow> ((500, HookError ''Webhook processing failed''), s1)
         | Inr endDate \<Rightarrow>
             ((200, HookStatus ''completed''),
              s1\<lparr>users := snd (findByIdAndUpdate (user_id transaction)
                     (subscriptionData (plan_id transaction) startDate endDate
                        (entity_id payment) (amount transaction))
                     (users s1))\<rparr>))"

section \<open>The subscription router stored in routes/business.js\<close>

subsection \<open>Order creation\<close>

text \<open>\<^verbatim>\<open>POST /create-order\<close> behind \<^verbatim>\<open>auth\<close> and \<^verbatim>\<open>requireEmailVerified\<close>; the
  transaction identifier comes from the schema default, and saving an entry without
  \<^verbatim>\<open>amount\<close> throws a validation error.\<close>

definition biz_create_order :: "env \<Rightarrow> user \<Rightarrow> string option \<Rightarrow> db \<Rightarrow> response \<times> db" where
  "biz_create_order e ru plan_type_field s =
     (if \<not> email_verified ru then ((403, Failure ''Email verification required.''), s)
      else if \<not> truthy plan_type_field \<or> SUBSCRIPTION_PLANS (the plan_type_field) = None
      then ((400, Failure ''Valid plan_type is required''), s)
      else
        (let planType = the plan_type_field; plan = the (SUBSCRIPTION_PLANS planType) in
         if hasActiveSubscription ru (now e)
         then ((400, AlreadyActive ''You already have an active subscription''
                       (getSubscriptionInfo (tza e) (now e) ru)), s)
         else
           (case orders_create e (price plan) (Some ''INR'') of
              Inl err \<Rightarrow> ((500, Failure (''Failed to create subscription order: '' @ err)), s)
            | Inr razorpayOrder \<Rightarrow>
                (case price plan of
                   None \<Rightarrow>
                     ((500, Failure (''Failed to create subscription order: '' @
                         message (Error ''SubscriptionTransaction validation failed: amount''))),
                      s)
                 | Some amt \<Rightarrow>
                     (let transaction =
                        \<lparr>transaction_id = generated_transaction_id e,
                         user_id = uid ru,
                         plan_id = planType,
                         razorpay_payment_id = None,
                         razorpay_order_id = Some (order_id razorpayOrder),
                         razorpay_signature = None,
                         amount = amt,
                         txn_currency = ''INR'',
                         txn_status = Pending,
                         created_at = now e,
                         updated_at = now e\<rparr>
                      in ((200, BizOrderData (order_id razorpayOrder)
                                 (order_amount razorpayOrder) (order_currency razorpayOrder)
                                 (transaction_id transaction)
                                 (biz_formatPlanForClient planType plan) (RAZORPAY_KEY_ID e)),
                          s\<lparr>ledger := ledger s @ [transaction]\<rparr>))))))"

subsection \<open>Client verification\<close>

text \<open>Method 2 of this handler: the payment fetched by its id, accepted when it belongs to
  the order and is captured.\<close>

definition biz_api_verified :: "env \<Rightarrow> string \<Rightarrow> string \<Rightarrow> bool" where
  "biz_api_verified e orderId paymentId =
     (case payments_fetch e paymentId of
        Inl err \<Rightarrow> False
      | Inr payment \<Rightarrow> payment_order_id payment = orderId \<and> payment_status payment = ''captured'')"

text \<open>Method 1 of this handler: attempted whenever a signature is supplied.  It is computed
  inline, outside any local \<^verbatim>\<open>try\<close>: with no key secret configured,
  \<^verbatim>\<open>createHmac\<close> throws into the handler's \<^verbatim>\<open>catch\<close> block.\<close>

definition biz_signature_verified :: "env \<Rightarrow> string \<Rightarrow> string \<Rightarrow> string option \<Rightarrow> exn + bool" where
  "biz_signature_verified e orderId paymentId signature =
     (if \<not> truthy signature then Inr False
      else case RAZORPAY_KEY_SECRET e of
             None \<Rightarrow> Inl (TypeError ''The key argument must be of type string'')
           | Some k \<Rightarrow>
               Inr (hmac_sha256_hex e k (orderId @ ''|'' @ paymentId) = the signature))"

text \<open>Both methods in order; the result is the final value of \<^verbatim>\<open>paymentVerified\<close>.\<close>

definition biz_verify :: "env \<Rightarrow> string \<Rightarrow> string \<Rightarrow> string option \<Rightarrow> exn + bool" where
  "biz_verify e orderId paymentId signature =
     (case biz_signature_verified e orderId paymentId signature of
        Inl err \<Rightarrow> Inl err
      | Inr True \<Rightarrow> Inr True
      | Inr False \<Rightarrow> Inr (biz_api_verified e orderId paymentId))"

text \<open>
  The handler of \<^verbatim>\<open>POST /verify-payment\<close>, again inside a database transaction; the
  failure branch commits its one write (the entry marked failed, with the timestamp
  mongoose maintains).  An Invalid Date as \<^verbatim>\<open>end_date\<close> is refused by the user schema's
  date cast, so \<^verbatim>\<open>findByIdAndUpdate\<close> throws before it looks for the user.
\<close>

definition biz_verify_payment :: "env \<Rightarrow> user \<Rightarrow> verify_req \<Rightarrow> db \<Rightarrow> response \<times> db \<times> notification list" where
  "biz_verify_payment e ru r s =
     (if \<not> truthy (req_order_id r) \<or> \<not> truthy (req_payment_id r)
      then ((400, Failure ''Order ID and Payment ID are required''), s, [])
      else
        (let orderId = the (req_order_id r); paymentId = the (req_payment_id r) in
         case findOne (\<lambda>t. razorpay_order_id t = Some orderId \<and> user_id t = uid ru) (ledger s) of
           None \<Rightarrow> ((404, Failure ''Transaction not found''), s, [])
         | Some i \<Rightarrow>
             (let transaction = ledger s ! i in
              if txn_status transaction = Completed then
                (case findById (uid ru) (users s) of
                   None \<Rightarrow>
                     ((500, Failure (''Payment verification failed: '' @
                         message (TypeError ''Cannot read properties of null''))), s, [])
                 | Some u \<Rightarrow>
                     ((200, BizVerifyData ''Payment already verified''
                              (transaction_id transaction)
                              (getSubscriptionInfo (tza e) (now e) u) None), s, []))
              else
                (case biz_verify e orderId paymentId (req_signature r) of
                   Inl err \<Rightarrow>
                     ((500, Failure (''Payment verification failed: '' @ message err)), s, [])
                 | Inr False \<Rightarrow>
                     ((400, Failure ''Payment verification failed''),
                      s\<lparr>ledger := (ledger s)[i := transaction
                            \<lparr>txn_status := Failed, updated_at := now e\<rparr>]\<rparr>, [])
                 | Inr True \<Rightarrow>
                     (let transaction' = transaction
                            \<lparr>razorpay_payment_id := Some paymentId,
                             razorpay_signature :=
                               (if truthy (req_signature r) then req_signature r
                                else Some ''verified_via_api''),
                             txn_status := Completed,
                             updated_at := now e\<rparr>;
                          startDate = now e
                      in case biz_calculateEndDate (tza e) (plan_id transaction) startDate of
                           Inl err \<Rightarrow>
                             ((500, Failure (''Payment verification failed: '' @ message err)),
                              s, [])
                         | Inr None \<Rightarrow>
                             ((500, Failure (''Payment verification failed: '' @
                                 message (Error ''Cast to date failed for value Invalid Date''))),
                              s, [])
                         | Inr (Some endDate) \<Rightarrow>
                             (case findByIdAndUpdate (uid ru)
                                     (subscriptionData (plan_id transaction) startDate endDate
                                        (Some paymentId) (amount transaction)) (users s) of
                                (None, users') \<Rightarrow>
                                  ((500, Failure (''Payment verification failed: '' @
                                      message (Error ''Failed to update user subscription''))),
                                   s, [])
                              | (Some updatedUser, users') \<Rightarrow>
                                  ((200, BizVerifyData
                                      ''Payment verified and subscription activated successfully''
                                      (transaction_id transaction)
                                      (getSubscriptionInfo (tza e) (now e) updatedUser)
                                      (map_option (biz_formatPlanForClient (plan_id transaction))
                                         (SUBSCRIPTION_PLANS (plan_id transaction)))),
                                   s\<lparr>ledger := (ledger s)[i := transaction'],
                                     users := users'\<rparr>,
                                   [\<lparr>to_email = email ru, to_name = full_name ru,
                                     n_plan_name =
                                       Option.bind (SUBSCRIPTION_PLANS (plan_id transaction))
                                         plan_name,
                                     n_amount = of_int (amount transaction) / 100,
                                     n_end_date = endDate\<rparr>])))))))"

text \<open>The route: the middleware, then the handler.\<close>

definition biz_verify_payment_route :: "env \<Rightarrow> credential \<Rightarrow> verify_req \<Rightarrow> db \<Rightarrow> response \<times> db \<times> notification list" where
  "biz_verify_payment_route e c r s =
     (case auth s c of
        Inl resp \<Rightarrow> (resp, s, [])
      | Inr ru \<Rightarrow> biz_verify_payment e ru r s)"

subsection \<open>Gateway webhook\<close>

text \<open>The secret is a string literal in the handler, so the signature is always checked and
  a request without the header is rejected.\<close>

definition biz_webhook_secret :: string where
  "biz_webhook_secret = ''@cuJ28rdcS*}>$C''"

text \<open>
  \<^verbatim>\<open>POST /webhook\<close>.  After saving the completed entry, the capture branch calls
  \<^verbatim>\<open>calculateSubscriptionEndDate\<close>, a name this module neither defines nor imports (it
  takes only \<^verbatim>\<open>razorpay\<close> and \<^verbatim>\<open>SUBSCRIPTION_PLANS\<close> from the gateway service): the
  call throws a ReferenceError into the \<^verbatim>\<open>catch\<close> block.
\<close>

definition biz_webhook :: "env \<Rightarrow> webhook_req \<Rightarrow> db \<Rightarrow> response \<times> db" where
  "biz_webhook e r s =
     (if x_razorpay_signature r \<noteq> Some (hmac_sha256_hex e biz_webhook_secret (body_json r))
      then ((400, HookError ''Invalid signature''), s)
      else if event r = Some ''payment.captured'' then
        (case hook_payment r of
           None \<Rightarrow> ((200, HookStatus ''ignored''), s)
         | Some payment \<Rightarrow>
             (case findOne (\<lambda>t. razorpay_order_id t = entity_order_id payment) (ledger s) of
                None \<Rightarrow> ((200, HookStatus ''no-transaction''), s)
              | Some i \<Rightarrow>
                  (let txn = ledger s ! i in
                   if txn_status txn = Completed
                   then ((200, HookStatus ''already-completed''), s)
                   else
                     ((500, HookError ''Webhook processing failed''),
                      s\<lparr>ledger := (ledger s)[i := txn
                            \<lparr>razorpay_payment_id := entity_id payment,
                             razorpay_signature := Some ''webhook_verified'',
                             txn_status := Completed,
                             updated_at := now e\<rparr>]\<rparr>))))
      else if event r = Some ''payment.failed'' then
        (case hook_payment r of
           None \<Rightarrow> ((200, HookStatus ''failed-marked''), s)
         | Some payment \<Rightarrow>
             (if truthy (entity_order_id payment)
              then ((200, HookStatus ''failed-marked''),
                    s\<lparr>ledger := mark_failed (now e) (the (entity_order_id payment)) (ledger s)\<rparr>)
              else ((200, HookStatus ''failed-marked''), s)))
      else ((200, HookStatus ''ignored''), s))"

section \<open>Example data\<close>

text \<open>A request environment at 2024-01-15T10:00:00Z on a server in UTC.  The gateway lists no
  payment for any order and knows no payment id; HMAC is replaced by a stand-in.\<close>

definition example_env :: env where
  "example_env =
     \<lparr>now = 1705312800000, tza = 0,
      RAZORPAY_KEY_SECRET = Some ''key_secret'',
      RAZORPAY_KEY_ID = Some ''rzp_test_key'',
      RAZORPAY_WEBHOOK_SECRET = Some ''hook_secret'',
      hmac_sha256_hex = (\<lambda>k m. k @ m),
      orders_create =
        (\<lambda>a c. Inr \<lparr>order_id = ''order_2'', order_amount = (case a of None \<Rightarrow> 0 | Some v \<Rightarrow> v),
                     order_currency = c\<rparr>),
      orders_fetchPayments = (\<lambda>orderId. Inr []),
      payments_fetch = (\<lambda>paymentId. Inl ''The id provided does not exist''),
      generated_transaction_id = ''TXN_2''\<rparr>"

text \<open>The same environment with a gateway that reports one captured payment of order
  \<^verbatim>\<open>order_1\<close>.\<close>

definition example_env_captured :: env where
  "example_env_captured =
     example_env
       \<lparr>orders_fetchPayments :=
          (\<lambda>orderId. if orderId = ''order_1''
             then Inr [\<lparr>payment_id = ''pay_1'', payment_order_id = ''order_1'',
                        payment_status = ''captured''\<rparr>]
             else Inr []),
        payments_fetch :=
          (\<lambda>paymentId. if paymentId = ''pay_1''
             then Inr \<lparr>payment_id = ''pay_1'', payment_order_id = ''order_1'',
                       payment_status = ''captured''\<rparr>
             else Inl ''The id provided does not exist'')\<rparr>"

text \<open>A gateway that answers the question for the payments of \<^verbatim>\<open>order_1\<close>, and the one
  for payment \<^verbatim>\<open>pay_1\<close>, with a captured payment of another order.\<close>

definition example_env_other_order :: env where
  "example_env_other_order =
     example_env
       \<lparr>orders_fetchPayments :=
          (\<lambda>orderId. if orderId = ''order_1''
             then Inr [\<lparr>payment_id = ''pay_9'', payment_order_id = ''order_9'',
                        payment_status = ''captured''\<rparr>]
             else Inr []),
        payments_fetch :=
          (\<lambda>paymentId. if paymentId = ''pay_1''
             then Inr \<lparr>payment_id = ''pay_1'', payment_order_id = ''order_9'',
                       payment_status = ''captured''\<rparr>
             else Inl ''The id provided does not exist'')\<rparr>"

definition example_user :: user where
  "example_user =
     \<lparr>uid = 7, email = ''owner@example.com'', full_name = ''Owner'',
      account_status = AccountActive, email_verified = True,
      subscription = no_subscription\<rparr>"

text \<open>The same user holding a basic plan that runs until 2024-02-01T00:00:00Z.\<close>

definition example_active_user :: user where
  "example_active_user =
     example_user\<lparr>subscription :=
       \<lparr>plan_type = Some ''basic'', start_date = Some 1704067200000,
        end_date = Some 1706745600000, status = Some Active,
        razorpay_subscription_id = Some ''pay_0'', amount_paid = Some 1\<rparr>\<rparr>"

definition example_txn :: txn where
  "example_txn =
     \<lparr>transaction_id = ''TXN_1'', user_id = 7, plan_id = ''basic'',
      razorpay_payment_id = None, razorpay_order_id = Some ''order_1'',
      razorpay_signature = None, amount = 100, txn_currency = ''INR'',
      txn_status = Pending, created_at = 1705309200000, updated_at = 1705309200000\<rparr>"

definition example_completed_txn :: txn where
  "example_completed_txn =
     example_txn\<lparr>razorpay_payment_id := Some ''pay_1'',
                 razorpay_signature := Some ''webhook_verified'',
                 txn_status := Completed\<rparr>"

text \<open>One pending checkout of the user.\<close>

definition example_db :: db where
  "example_db = \<lparr>ledger = [example_txn], users = [example_user]\<rparr>"

text \<open>The checkout completed and the subscription active.\<close>

definition example_db_completed :: db where
  "example_db_completed = \<lparr>ledger = [example_completed_txn], users = [example_active_user]\<rparr>"

text \<open>The pending checkout after its user deleted the account
  (\<^verbatim>\<open>DELETE /api/user/account\<close> removes the user document and leaves the ledger).\<close>

definition example_db_user_deleted :: db where
  "example_db_user_deleted = \<lparr>ledger = [example_txn], users = []\<rparr>"

definition example_verify_req :: verify_req where
  "example_verify_req =
     \<lparr>req_order_id = Some ''order_1'', req_payment_id = Some ''pay_1'',
      req_signature = None, req_plan_id = Some ''basic''\<rparr>"

definition example_entity :: payment_entity where
  "example_entity = \<lparr>entity_id = Some ''pay_1'', entity_order_id = Some ''order_1''\<rparr>"

definition example_hook :: "string \<Rightarrow> webhook_req" where
  "example_hook ev =
     \<lparr>x_razorpay_signature = Some ''hook_secret{...}'', body_json = ''{...}'', event = Some ev,
      hook_payment = Some example_entity\<rparr>"

text \<open>The example environment with the captured payment, one minute later.\<close>

definition example_env_later :: env where
  "example_env_later = example_env_captured\<lparr>now := 1705312860000\<rparr>"

text \<open>The database after the client call has verified the pending checkout through the
  gateway at the example clock: the entry completed, the subscription running thirty days
  from 2024-01-15T10:00:00Z.\<close>

definition example_db_client_activated :: db where
  "example_db_client_activated =
     \<lparr>ledger = [example_txn\<lparr>razorpay_payment_id := Some ''pay_1'',
                   razorpay_signature := Some ''api_fetch_verified'',
                   txn_status := Completed, updated_at := 1705312800000\<rparr>],
      users = [example_user\<lparr>subscription :=
                 \<lparr>plan_type = Some ''basic'', start_date = Some 1705312800000,
                  end_date = Some 1707904800000, status = Some Active,
                  razorpay_subscription_id = Some ''pay_1'', amount_paid = Some 1\<rparr>\<rparr>]\<rparr>"

text \<open>The database after a webhook write one minute later: the entry rewritten, the
  subscription running thirty days from 2024-01-15T10:01:00Z.\<close>

definition example_db_webhook_activated :: db where
  "example_db_webhook_activated =
     \<lparr>ledger = [example_txn\<lparr>razorpay_payment_id := Some ''pay_1'',
                   razorpay_signature := Some ''webhook_verified'',
                   txn_status := Completed, updated_at := 1705312860000\<rparr>],
      users = [example_user\<lparr>subscription :=
                 \<lparr>plan_type = Some ''basic'', start_date = Some 1705312860000,
                  end_date = Some 1707904860000, status = Some Active,
                  razorpay_subscription_id = Some ''pay_1'', amount_paid = Some 1\<rparr>\<rparr>]\<rparr>"

text \<open>What the basic plan looks like to a client of routes/subscription.js and of
  routes/business.js.\<close>

definition example_sub_plan_details :: sub_plan_details where
  "example_sub_plan_details =
     \<lparr>spd_id = ''basic'', spd_name = Some ''Basic Plan'', spd_price = Some 1,
      spd_currency = None, spd_validity_period = None, spd_validity_type = None,
      spd_features =
        [''Up to 50 invoices per month'', ''Basic invoice templates'',
         ''Customer management'', ''Payment tracking'', ''Email support''],
      spd_is_popular = False\<rparr>"

definition example_biz_plan_details :: biz_plan_details where
  "example_biz_plan_details =
     \<lparr>bpd_plan_id = ''basic'', bpd_name = Some ''Basic Plan'', bpd_price = Some 100,
      bpd_price_inr = Some 1, bpd_duration_months = Some 1,
      bpd_features =
        Some [''Up to 50 invoices per month'', ''Basic invoice templates'',
              ''Customer management'', ''Payment tracking'', ''Email support''],
      bpd_duration_text = ''1 month''\<rparr>"

section \<open>Properties\<close>

subsection \<open>Auxiliary facts\<close>

lemma findOne_Some: "findOne P xs = Some i \<Longrightarrow> i < length xs \<and> P (xs ! i)"
proof (induction xs arbitrary: i)
  case Nil
  then show ?case by simp
next
  case (Cons x xs)
  then show ?case by (auto split: if_splits)
qed

lemma find_SomeD: "find P xs = Some x \<Longrightarrow> x \<in> set xs \<and> P x"
  by (induction xs) (auto split: if_splits)

lemma find_findOne: "find P xs = Some x \<Longrightarrow> \<exists>j. findOne P xs = Some j \<and> xs ! j = x"
  by (induction xs) (auto split: if_splits)

lemma find_update_first:
  "findOne P xs = Some j \<Longrightarrow> P y \<Longrightarrow> find P (xs[j := y]) = Some y"
proof (induction xs arbitrary: j)
  case Nil
  then show ?case by simp
next
  case (Cons x xs)
  then show ?case by (cases "P x") auto
qed

lemma findById_uid: "findById k us = Some u \<Longrightarrow> uid u = k"
  unfolding findById_def by (drule find_SomeD) simp

text \<open>Updating the subscription of a stored user hands back that user with the new
  subscription and stores it under the same id.\<close>

lemma findByIdAndUpdate_found:
  assumes "findById k us = Some u"
  shows "fst (findByIdAndUpdate k d us) = Some (u\<lparr>subscription := d\<rparr>) \<and>
         findById k (snd (findByIdAndUpdate k d us)) = Some (u\<lparr>subscription := d\<rparr>)"
proof -
  from assms obtain j where j: "findOne (\<lambda>u. uid u = k) us = Some j" "us ! j = u"
    unfolding findById_def by (blast dest: find_findOne)
  from assms have "uid u = k" by (rule findById_uid)
  then have "find (\<lambda>u. uid u = k) (us[j := u\<lparr>subscription := d\<rparr>]) = Some (u\<lparr>subscription := d\<rparr>)"
    using j(1) by (intro find_update_first) simp_all
  with j show ?thesis by (simp add: findByIdAndUpdate_def findById_def)
qed

lemma findByIdAndUpdate_absent:
  "findById k us = None \<Longrightarrow> findByIdAndUpdate k d us = (None, us)"
proof -
  assume "findById k us = None"
  then have "findOne (\<lambda>u. uid u = k) us = None"
    unfolding findById_def by (induction us) (auto split: if_splits)
  then show ?thesis by (simp add: findByIdAndUpdate_def)
qed

text \<open>A request the middleware lets through carries the stored document of its user.\<close>

lemma auth_found: "auth s c = Inr ru \<Longrightarrow> findById (uid ru) (users s) = Some ru"
proof -
  assume a: "auth s c = Inr ru"
  then obtain k where k: "c = Token k" "findById k (users s) = Some ru"
    by (auto simp add: auth_def split: credential.splits option.splits if_splits)
  from k(2) have "uid ru = k" by (rule findById_uid)
  with k show ?thesis by simp
qed

lemma no_plan_without_name: "SUBSCRIPTION_PLANS [] = None"
  by (simp add: SUBSCRIPTION_PLANS_def inherited_names_def)

lemma Day_MakeDate: "0 \<le> tm \<Longrightarrow> tm < msPerDay \<Longrightarrow> Day (MakeDate d tm) = d"
  by (simp add: Day_def MakeDate_def msPerDay_def div_pos_pos_trivial)

lemma TimeWithinDay_bounds: "0 \<le> TimeWithinDay t \<and> TimeWithinDay t < msPerDay"
  by (simp add: TimeWithinDay_def msPerDay_def)

text \<open>Values at the example clock, and one minute later.\<close>

lemma example_end_date:
  "sub_calculateEndDate 0 ''basic'' 1705312800000 = Inr 1707904800000"
  by code_simp

lemma example_end_date_later:
  "sub_calculateEndDate 0 ''basic'' 1705312860000 = Inr 1707904860000"
  by code_simp

lemma example_end_date_biz:
  "biz_calculateEndDate 0 ''basic'' 1705312800000 = Inr (Some 1708041599999)"
  by code_simp

text \<open>A name every object inherits is found in the catalogue like a plan: it has no
  duration, and routes/subscription.js gives it the thirty days of its default branch.\<close>

lemma inherited_name_is_found:
  "SUBSCRIPTION_PLANS ''constructor'' = Some (inherited_value ''constructor'') \<and>
   sub_calculateEndDate 0 ''constructor'' 1705312800000 = Inr 1707904800000 \<and>
   biz_calculateEndDate 0 ''constructor'' 1705312800000 = Inr None \<and>
   SUBSCRIPTION_PLANS ''gold'' = None"
  by code_simp

subsection \<open>The derived read\<close>

text \<open>
  Claim C10.  \<^verbatim>\<open>hasActiveSubscription\<close> is false whenever the subscription record has no
  \<^verbatim>\<open>end_date\<close>, whatever the stored status; with an \<^verbatim>\<open>end_date\<close> it is true exactly when
  the stored status is \<^verbatim>\<open>active\<close> and the end date is strictly later than the current time.
\<close>

theorem hasActiveSubscription_cases:
  "(end_date (subscription u) = None \<longrightarrow> \<not> hasActiveSubscription u t) \<and>
   (\<forall>e. end_date (subscription u) = Some e \<longrightarrow>
      hasActiveSubscription u t = (status (subscription u) = Some Active \<and> t < e))"
  by (simp add: hasActiveSubscription_def)

text \<open>A user stored as active without an end date is not active; the example subscriber is
  active before the end date and no longer at the end date itself.\<close>

theorem hasActiveSubscription_cases_witness:
  "\<not> hasActiveSubscription
       (example_user\<lparr>subscription := no_subscription\<lparr>status := Some Active\<rparr>\<rparr>) 0 \<and>
   hasActiveSubscription example_active_user 1705312800000 \<and>
   \<not> hasActiveSubscription example_active_user 1706745600000"
  using hasActiveSubscription_cases
          [of "example_user\<lparr>subscription := no_subscription\<lparr>status := Some Active\<rparr>\<rparr>" 0]
        hasActiveSubscription_cases [of example_active_user 1705312800000]
        hasActiveSubscription_cases [of example_active_user 1706745600000]
  by (simp add: example_user_def example_active_user_def no_subscription_def)

subsection \<open>Idempotency guard\<close>

text \<open>
  Claim C1 says that every verification trigger whose resolved entry is already completed
  returns success with the user's existing SubscriptionState.  The webhook does not: its
  answer to a \<^verbatim>\<open>payment.captured\<close> event for a completed entry is the acknowledgement
  \<^verbatim>\<open>already_completed\<close>, which carries no subscription at all.
\<close>

theorem webhook_acknowledgement_carries_no_subscription:
  "sub_webhook example_env (example_hook ''payment.captured'') example_db_completed =
     ((200, HookStatus ''already_completed''), example_db_completed) \<and>
   subscription_info_of
     (snd (fst (sub_webhook example_env (example_hook ''payment.captured'') example_db_completed)))
     = None \<and>
   findById 7 (users example_db_completed) = Some example_active_user \<and>
   plan_type (subscription example_active_user) = Some ''basic''"
  by code_simp

text \<open>
  Claim C1, amended.  When the ledger entry a verification trigger resolves is already
  completed, the trigger succeeds without verifying again, writes nothing and dispatches no
  notification, and repeating it gives the same result.  The client call, which the
  \<^verbatim>\<open>auth\<close> middleware has let through, returns the subscription of the stored user:
  plan, status, start and end as they are stored.  The webhook's \<^verbatim>\<open>payment.captured\<close>
  event is acknowledged with \<^verbatim>\<open>already_completed\<close> and no subscription.
\<close>

theorem completed_entry_short_circuits:
  "(auth s c = Inr ru \<and> truthy (req_order_id r) \<and> truthy (req_plan_id r) \<and>
    findOne (\<lambda>t. razorpay_order_id t = Some (the (req_order_id r)) \<and> user_id t = uid ru)
      (ledger s) = Some i \<and>
    txn_status (ledger s ! i) = Completed
    \<longrightarrow> (\<exists>info. sub_verify_payment_route e c r s =
              ((200, SubVerifyData ''Payment already verified and subscription is active''
                       (transaction_id (ledger s ! i)) info
                       (sub_getPlanDetails (the (req_plan_id r))) None), s, []) \<and>
            si_plan_type info = plan_type (subscription ru) \<and>
            si_status info = status (subscription ru) \<and>
            si_start_date info = start_date (subscription ru) \<and>
            si_end_date info = end_date (subscription ru)) \<and>
        findById (uid ru) (users s) = Some ru \<and>
        sub_verify_payment_route e c r (fst (snd (sub_verify_payment_route e c r s))) =
          sub_verify_payment_route e c r s) \<and>
   (\<not> sub_webhook_rejected e w \<and> event w = Some ''payment.captured'' \<and>
    hook_payment w = Some p \<and>
    findOne (\<lambda>t. razorpay_order_id t = entity_order_id p) (ledger s) = Some j \<and>
    txn_status (ledger s ! j) = Completed
    \<longrightarrow> sub_webhook e w s = ((200, HookStatus ''already_completed''), s) \<and>
        sub_webhook e w (snd (sub_webhook e w s)) = sub_webhook e w s)"
proof (intro conjI impI)
  assume h: "auth s c = Inr ru \<and> truthy (req_order_id r) \<and> truthy (req_plan_id r) \<and>
    findOne (\<lambda>t. razorpay_order_id t = Some (the (req_order_id r)) \<and> user_id t = uid ru)
      (ledger s) = Some i \<and>
    txn_status (ledger s ! i) = Completed"
  then have stored: "findById (uid ru) (users s) = Some ru" by (blast intro: auth_found)
  with h have run: "sub_verify_payment_route e c r s =
      ((200, SubVerifyData ''Payment already verified and subscription is active''
               (transaction_id (ledger s ! i)) (getSubscriptionInfo (tza e) (now e) ru)
               (sub_getPlanDetails (the (req_plan_id r))) None), s, [])"
    by (simp add: sub_verify_payment_route_def sub_verify_payment_def)
  show "findById (uid ru) (users s) = Some ru" by (rule stored)
  show "sub_verify_payment_route e c r (fst (snd (sub_verify_payment_route e c r s))) =
          sub_verify_payment_route e c r s"
    by (simp add: run)
  show "\<exists>info. sub_verify_payment_route e c r s =
              ((200, SubVerifyData ''Payment already verified and subscription is active''
                       (transaction_id (ledger s ! i)) info
                       (sub_getPlanDetails (the (req_plan_id r))) None), s, []) \<and>
            si_plan_type info = plan_type (subscription ru) \<and>
            si_status info = status (subscription ru) \<and>
            si_start_date info = start_date (subscription ru) \<and>
            si_end_date info = end_date (subscription ru)"
    by (rule exI [of _ "getSubscriptionInfo (tza e) (now e) ru"])
       (simp add: run getSubscriptionInfo_def)
next
  assume h: "\<not> sub_webhook_rejected e w \<and> event w = Some ''payment.captured'' \<and>
    hook_payment w = Some p \<and>
    findOne (\<lambda>t. razorpay_order_id t = entity_order_id p) (ledger s) = Some j \<and>
    txn_status (ledger s ! j) = Completed"
  then have run: "sub_webhook e w s = ((200, HookStatus ''already_completed''), s)"
    by (simp add: sub_webhook_def)
  show "sub_webhook e w s = ((200, HookStatus ''already_completed''), s)" by (rule run)
  show "sub_webhook e w (snd (sub_webhook e w s)) = sub_webhook e w s" by (simp add: run)
qed

text \<open>The example subscriber verifies the completed checkout again and is told of the
  basic plan, active from 2024-01-01 to 2024-02-01 with 17 days remaining; the webhook for
  the same checkout is acknowledged.\<close>

theorem completed_entry_short_circuits_witness:
  "sub_verify_payment_route example_env (Token 7) example_verify_req example_db_completed =
     ((200, SubVerifyData ''Payment already verified and subscription is active'' ''TXN_1''
              \<lparr>si_plan_type = Some ''basic'', si_status = Some Active,
               si_start_date = Some 1704067200000, si_end_date = Some 1706745600000,
               days_remaining = 17\<rparr>
              (Some example_sub_plan_details) None),
      example_db_completed, []) \<and>
   sub_webhook example_env (example_hook ''payment.captured'') example_db_completed =
     ((200, HookStatus ''already_completed''), example_db_completed)"
proof -
  have authed: "auth example_db_completed (Token 7) = Inr example_active_user"
    by code_simp
  have fields: "truthy (req_order_id example_verify_req) \<and> truthy (req_plan_id example_verify_req)"
    by (simp add: example_verify_req_def truthy_def)
  have lookup: "findOne (\<lambda>t. razorpay_order_id t = Some (the (req_order_id example_verify_req)) \<and>
                    user_id t = uid example_active_user) (ledger example_db_completed) = Some 0 \<and>
                txn_status (ledger example_db_completed ! 0) = Completed"
    by (simp add: example_verify_req_def example_active_user_def example_user_def
          example_db_completed_def example_completed_txn_def example_txn_def)
  have gate: "\<not> sub_webhook_rejected example_env (example_hook ''payment.captured'') \<and>
              event (example_hook ''payment.captured'') = Some ''payment.captured'' \<and>
              hook_payment (example_hook ''payment.captured'') = Some example_entity"
    by (simp add: sub_webhook_rejected_def example_env_def example_hook_def truthy_def)
  have hook_lookup: "findOne (\<lambda>t. razorpay_order_id t = entity_order_id example_entity)
                       (ledger example_db_completed) = Some 0"
    by (simp add: example_db_completed_def example_completed_txn_def example_txn_def
          example_entity_def)
  have stored: "subscription example_active_user =
      \<lparr>plan_type = Some ''basic'', start_date = Some 1704067200000,
       end_date = Some 1706745600000, status = Some Active,
       razorpay_subscription_id = Some ''pay_0'', amount_paid = Some 1\<rparr>"
    by (simp add: example_active_user_def)
  have details: "sub_getPlanDetails (the (req_plan_id example_verify_req)) =
      Some example_sub_plan_details"
    by code_simp
  have tid: "transaction_id (ledger example_db_completed ! 0) = ''TXN_1''"
    by (simp add: example_db_completed_def example_completed_txn_def example_txn_def)
  from completed_entry_short_circuits
         [of example_db_completed "Token 7" example_active_user example_verify_req 0
             example_env "example_hook ''payment.captured''" example_entity 0]
       authed fields lookup gate hook_lookup
  obtain info where
    client: "sub_verify_payment_route example_env (Token 7) example_verify_req example_db_completed =
       ((200, SubVerifyData ''Payment already verified and subscription is active''
                (transaction_id (ledger example_db_completed ! 0)) info
                (sub_getPlanDetails (the (req_plan_id example_verify_req))) None),
        example_db_completed, [])"
    and info: "si_plan_type info = plan_type (subscription example_active_user)"
              "si_status info = status (subscription example_active_user)"
              "si_start_date info = start_date (subscription example_active_user)"
              "si_end_date info = end_date (subscription example_active_user)"
    and hook: "sub_webhook example_env (example_hook ''payment.captured'') example_db_completed =
       ((200, HookStatus ''already_completed''), example_db_completed)"
    by blast
  have days: "days_remaining (getSubscriptionInfo (tza example_env) (now example_env)
                example_active_user) = 17"
    by code_simp
  from client have "info = getSubscriptionInfo (tza example_env) (now example_env)
      example_active_user"
    using authed lookup fields
    by (simp add: sub_verify_payment_route_def sub_verify_payment_def auth_found [OF authed])
  with days have "days_remaining info = 17" by simp
  with info stored have "info = \<lparr>si_plan_type = Some ''basic'', si_status = Some Active,
               si_start_date = Some 1704067200000, si_end_date = Some 1706745600000,
               days_remaining = 17\<rparr>"
    by (cases info) simp
  with client hook details tid show ?thesis by simp
qed

subsection \<open>Failed verification\<close>

text \<open>
  Claim C3.  When the resolved entry is pending and neither verification method succeeds,
  the caller gets the verification failure (status 400), no notification is dispatched, the
  user collection is untouched and the entry is not completed: routes/subscription.js
  aborts and leaves the whole database, and so the pending entry, as it was;
  routes/business.js commits the entry as failed and nothing else.
\<close>

theorem failed_verification_never_activates:
  "(truthy (req_order_id r) \<and> truthy (req_plan_id r) \<and>
    findOne (\<lambda>t. razorpay_order_id t = Some (the (req_order_id r)) \<and> user_id t = uid ru)
      (ledger s) = Some i \<and>
    txn_status (ledger s ! i) = Pending \<and>
    sub_verify e (the (req_order_id r)) (req_payment_id r) (req_signature r) = None
    \<longrightarrow> sub_verify_payment e ru r s =
          ((400, Failure ''Payment verification failed. Please try again or contact support.''),
           s, [])) \<and>
   (truthy (req_order_id r) \<and> truthy (req_payment_id r) \<and>
    findOne (\<lambda>t. razorpay_order_id t = Some (the (req_order_id r)) \<and> user_id t = uid ru)
      (ledger s) = Some i \<and>
    txn_status (ledger s ! i) = Pending \<and>
    biz_verify e (the (req_order_id r)) (the (req_payment_id r)) (req_signature r) = Inr False
    \<longrightarrow> (\<exists>s'. biz_verify_payment e ru r s = ((400, Failure ''Payment verification failed''), s', []) \<and>
             users s' = users s \<and>
             ledger s' = (ledger s)[i := (ledger s ! i)\<lparr>txn_status := Failed, updated_at := now e\<rparr>] \<and>
             txn_status (ledger s' ! i) = Failed))"
  by (auto simp add: sub_verify_payment_def biz_verify_payment_def Let_def dest: findOne_Some)

theorem failed_verification_never_activates_witness:
  "sub_verify_payment example_env example_user example_verify_req example_db =
     ((400, Failure ''Payment verification failed. Please try again or contact support.''),
      example_db, []) \<and>
   (\<exists>s'. biz_verify_payment example_env example_user example_verify_req example_db =
            ((400, Failure ''Payment verification failed''), s', []) \<and>
          users s' = users example_db \<and>
          ledger s' = [example_txn\<lparr>txn_status := Failed, updated_at := 1705312800000\<rparr>])"
proof -
  have lookup: "findOne (\<lambda>t. razorpay_order_id t = Some (the (req_order_id example_verify_req)) \<and>
                    user_id t = uid example_user) (ledger example_db) = Some 0"
    by (simp add: example_verify_req_def example_user_def example_db_def example_txn_def)
  have pending: "txn_status (ledger example_db ! 0) = Pending"
    by (simp add: example_db_def example_txn_def)
  have fields: "truthy (req_order_id example_verify_req) \<and> truthy (req_plan_id example_verify_req)
      \<and> truthy (req_payment_id example_verify_req)"
    by (simp add: example_verify_req_def truthy_def)
  have sub: "sub_verify example_env (the (req_order_id example_verify_req))
      (req_payment_id example_verify_req) (req_signature example_verify_req) = None"
    by (simp add: example_verify_req_def example_env_def truthy_def sub_verify_def
          sub_signature_verified_def sub_api_verified_def)
  have biz: "biz_verify example_env (the (req_order_id example_verify_req))
      (the (req_payment_id example_verify_req)) (req_signature example_verify_req) = Inr False"
    by (simp add: example_verify_req_def example_env_def truthy_def biz_verify_def
          biz_signature_verified_def biz_api_verified_def)
  have ld: "(ledger example_db)[0 := (ledger example_db ! 0)\<lparr>txn_status := Failed, updated_at := now example_env\<rparr>]
      = [example_txn\<lparr>txn_status := Failed, updated_at := 1705312800000\<rparr>]"
    by (simp add: example_db_def example_env_def)
  from failed_verification_never_activates [of example_verify_req example_user example_db 0 example_env]
       lookup pending fields sub biz
  show ?thesis unfolding ld by blast
qed

subsection \<open>Webhook acknowledgements\<close>

text \<open>
  Claim C8.  Once the webhook's signature gate lets a request through (the signature
  matches, or no secret is configured), every request with nothing to do is acknowledged
  with status 200 and leaves the database alone: a capture event without payment entity,
  for an unknown order or for an entry already completed, and any event other than
  \<^verbatim>\<open>payment.captured\<close> and \<^verbatim>\<open>payment.failed\<close>.  A status other than 200 has one of two
  causes: the gate rejected the signature (400), or an exception reached the handler's
  \<^verbatim>\<open>catch\<close> block (500), which in this model is \<^verbatim>\<open>calculateEndDate\<close> throwing on
  the entry's plan.
\<close>

theorem webhook_acknowledges_no_ops:
  "(\<not> sub_webhook_rejected e r \<longrightarrow>
      (event r = Some ''payment.captured'' \<and> hook_payment r = None
         \<longrightarrow> sub_webhook e r s = ((200, HookStatus ''ignored''), s)) \<and>
      (\<forall>p. event r = Some ''payment.captured'' \<and> hook_payment r = Some p \<and>
            findOne (\<lambda>t. razorpay_order_id t = entity_order_id p) (ledger s) = None
         \<longrightarrow> sub_webhook e r s = ((200, HookStatus ''transaction_not_found''), s)) \<and>
      (\<forall>p i. event r = Some ''payment.captured'' \<and> hook_payment r = Some p \<and>
            findOne (\<lambda>t. razorpay_order_id t = entity_order_id p) (ledger s) = Some i \<and>
            txn_status (ledger s ! i) = Completed
         \<longrightarrow> sub_webhook e r s = ((200, HookStatus ''already_completed''), s)) \<and>
      (event r \<noteq> Some ''payment.captured'' \<and> event r \<noteq> Some ''payment.failed''
         \<longrightarrow> sub_webhook e r s = ((200, HookStatus ''ignored''), s))) \<and>
   (fst (fst (sub_webhook e r s)) \<noteq> 200 \<longrightarrow>
      (sub_webhook_rejected e r \<and>
       sub_webhook e r s = ((400, HookError ''Invalid signature''), s)) \<or>
      (\<not> sub_webhook_rejected e r \<and>
       fst (sub_webhook e r s) = (500, HookError ''Webhook processing failed'') \<and>
       (\<exists>p i err. event r = Some ''payment.captured'' \<and> hook_payment r = Some p \<and>
          findOne (\<lambda>t. razorpay_order_id t = entity_order_id p) (ledger s) = Some i \<and>
          sub_calculateEndDate (tza e) (plan_id (ledger s ! i)) (now e) = Inl err)))"
  by (auto simp add: sub_webhook_def Let_def split: option.splits sum.splits if_splits)

theorem webhook_acknowledges_no_ops_witness:
  "sub_webhook example_env ((example_hook ''payment.captured'')\<lparr>hook_payment := None\<rparr>) example_db =
     ((200, HookStatus ''ignored''), example_db) \<and>
   sub_webhook example_env (example_hook ''payment.captured'') \<lparr>ledger = [], users = []\<rparr> =
     ((200, HookStatus ''transaction_not_found''), \<lparr>ledger = [], users = []\<rparr>) \<and>
   sub_webhook example_env (example_hook ''payment.captured'') example_db_completed =
     ((200, HookStatus ''already_completed''), example_db_completed) \<and>
   sub_webhook example_env (example_hook ''order.paid'') example_db =
     ((200, HookStatus ''ignored''), example_db) \<and>
   sub_webhook example_env
      ((example_hook ''payment.captured'')\<lparr>x_razorpay_signature := Some ''forged''\<rparr>) example_db =
     ((400, HookError ''Invalid signature''), example_db)"
proof -
  let ?forged = "(example_hook ''payment.captured'')\<lparr>x_razorpay_signature := Some ''forged''\<rparr>"
  have pass: "\<not> sub_webhook_rejected example_env (example_hook ev)"
             "\<not> sub_webhook_rejected example_env ((example_hook ev)\<lparr>hook_payment := None\<rparr>)" for ev
    by (simp_all add: sub_webhook_rejected_def example_env_def example_hook_def truthy_def)
  have rejected: "sub_webhook_rejected example_env ?forged"
    by (simp add: sub_webhook_rejected_def example_env_def example_hook_def truthy_def)
  have fields: "event (example_hook ev) = Some ev"
               "hook_payment (example_hook ev) = Some example_entity"
               "event ((example_hook ev)\<lparr>hook_payment := None\<rparr>) = Some ev"
               "hook_payment ((example_hook ev)\<lparr>hook_payment := None\<rparr>) = None" for ev
    by (simp_all add: example_hook_def)
  have unknown: "findOne (\<lambda>t. razorpay_order_id t = entity_order_id example_entity)
                   (ledger \<lparr>ledger = [], users = []\<rparr>) = None"
    by simp
  have known: "findOne (\<lambda>t. razorpay_order_id t = entity_order_id example_entity)
                 (ledger example_db_completed) = Some 0 \<and>
               txn_status (ledger example_db_completed ! 0) = Completed"
    by (simp add: example_db_completed_def example_completed_txn_def example_txn_def
          example_entity_def)
  have other: "Some ''order.paid'' \<noteq> Some ''payment.captured'' \<and>
               Some ''order.paid'' \<noteq> Some ''payment.failed''"
    by simp
  have error_status: "fst (fst (sub_webhook example_env ?forged example_db)) \<noteq> 200"
    by (simp add: sub_webhook_def rejected)
  have a: "sub_webhook example_env ((example_hook ''payment.captured'')\<lparr>hook_payment := None\<rparr>)
             example_db = ((200, HookStatus ''ignored''), example_db)"
    using webhook_acknowledges_no_ops
            [of example_env "(example_hook ''payment.captured'')\<lparr>hook_payment := None\<rparr>" example_db]
          pass fields by blast
  have b: "sub_webhook example_env (example_hook ''payment.captured'')
             \<lparr>ledger = [], users = []\<rparr> =
           ((200, HookStatus ''transaction_not_found''), \<lparr>ledger = [], users = []\<rparr>)"
    using webhook_acknowledges_no_ops
            [of example_env "example_hook ''payment.captured''" "\<lparr>ledger = [], users = []\<rparr>"]
          pass fields unknown by blast
  have c: "sub_webhook example_env (example_hook ''payment.captured'') example_db_completed =
           ((200, HookStatus ''already_completed''), example_db_completed)"
    using webhook_acknowledges_no_ops
            [of example_env "example_hook ''payment.captured''" example_db_completed]
          pass fields known by blast
  have d: "sub_webhook example_env (example_hook ''order.paid'') example_db =
           ((200, HookStatus ''ignored''), example_db)"
    using webhook_acknowledges_no_ops [of example_env "example_hook ''order.paid''" example_db]
          pass fields other by metis
  have f: "sub_webhook example_env ?forged example_db =
           ((400, HookError ''Invalid signature''), example_db)"
    using webhook_acknowledges_no_ops [of example_env ?forged example_db] rejected error_status
    by blast
  from a b c d f show ?thesis by blast
qed

subsection \<open>End of the validity window\<close>

text \<open>The helper of routes/business.js computes what the specification describes: the local
  calendar date moved on by the plan's \<^verbatim>\<open>duration_months\<close>, at 23:59:59.999.\<close>

lemma biz_calculateEndDate_meets_spec:
  "SUBSCRIPTION_PLANS p = Some pl \<Longrightarrow> duration_months pl = Some months \<Longrightarrow>
   biz_calculateEndDate z p start = Inr (Some (spec_end_date z months start))"
  using TimeWithinDay_bounds [of "LocalTime z start"]
  by (simp add: biz_calculateEndDate_def spec_end_date_def setHours_def setMonth_def getMonth_def
      Let_def LocalTime_def UTC_def Day_MakeDate)

text \<open>
  Claim C5.  The end date is the start date advanced by the plan's \<^verbatim>\<open>duration_months\<close>
  calendar months at 23:59:59.999 of that day, so a one-month plan activated at
  2024-01-15T10:00:00Z (1705312800000) ends at 2024-02-15T23:59:59.999Z (1708041599999).
  The helper of routes/business.js returns that value on a server in UTC.  The helper of
  routes/subscription.js, which both of that file's activation paths call, switches on
  \<^verbatim>\<open>validity_type\<close>, a property no plan has, and so always takes its default branch:
  thirty days after the start at the unchanged time of day, 2024-02-14T10:00:00Z
  (1707904800000), for the one-month basic plan and for the 36-month enterprise plan alike.
\<close>

theorem sub_calculateEndDate_ignores_duration:
  "sub_calculateEndDate 0 ''basic'' 1705312800000 = Inr 1707904800000 \<and>
   sub_calculateEndDate 0 ''enterprise'' 1705312800000 = Inr 1707904800000 \<and>
   spec_end_date 0 1 1705312800000 = 1708041599999 \<and>
   biz_calculateEndDate 0 ''basic'' 1705312800000 = Inr (Some 1708041599999)"
  by code_simp

subsection \<open>Activation and the two writes\<close>

text \<open>The client path of routes/subscription.js is all-or-nothing: either the database is
  returned as it was and nothing is sent, or the resolved entry is completed and the
  user's stored subscription is active.\<close>

lemma sub_verify_payment_atomic:
  assumes run: "sub_verify_payment e ru r s = (resp, s', ns)"
  shows "(s' = s \<and> ns = []) \<or>
   (fst resp = 200 \<and>
    (\<exists>i. findOne (\<lambda>t. razorpay_order_id t = Some (the (req_order_id r)) \<and> user_id t = uid ru)
           (ledger s) = Some i \<and>
         txn_status (ledger s' ! i) = Completed) \<and>
    (\<exists>u'. findById (uid ru) (users s') = Some u' \<and> hasActiveSubscription u' (now e)))"
proof (cases "s' = s \<and> ns = []")
  case True
  then show ?thesis by simp
next
  case False
  let ?look = "findOne (\<lambda>t. razorpay_order_id t = Some (the (req_order_id r)) \<and> user_id t = uid ru)
                 (ledger s)"
  let ?ver = "sub_verify e (the (req_order_id r)) (req_payment_id r) (req_signature r)"
  let ?cal = "sub_calculateEndDate (tza e) (the (req_plan_id r)) (now e)"
  have unchanged: False if "snd (sub_verify_payment e ru r s) = (s, [])"
    using that run False by simp
  have fields: "truthy (req_order_id r) \<and> truthy (req_plan_id r)"
    by (rule ccontr, rule unchanged) (auto simp add: sub_verify_payment_def)
  have "?look \<noteq> None"
  proof
    assume "?look = None"
    with fields have "snd (sub_verify_payment e ru r s) = (s, [])"
      by (simp add: sub_verify_payment_def)
    then show False by (rule unchanged)
  qed
  then obtain i where i: "?look = Some i" by auto
  have open_entry: "txn_status (ledger s ! i) \<noteq> Completed"
  proof
    assume "txn_status (ledger s ! i) = Completed"
    with fields i have "snd (sub_verify_payment e ru r s) = (s, [])"
      by (cases "findById (uid ru) (users s)") (simp_all add: sub_verify_payment_def Let_def)
    then show False by (rule unchanged)
  qed
  have "?ver \<noteq> None"
  proof
    assume "?ver = None"
    with fields i open_entry have "snd (sub_verify_payment e ru r s) = (s, [])"
      by (simp add: sub_verify_payment_def Let_def)
    then show False by (rule unchanged)
  qed
  then obtain m p where v: "?ver = Some (m, p)" by auto
  have "\<exists>endDate. ?cal = Inr endDate"
  proof (cases ?cal)
    case (Inl err)
    with fields i open_entry v have "snd (sub_verify_payment e ru r s) = (s, [])"
      by (simp add: sub_verify_payment_def Let_def)
    then show ?thesis by (rule unchanged [THEN FalseE])
  next
    case (Inr endDate)
    then show ?thesis by simp
  qed
  then obtain endDate where c: "?cal = Inr endDate" by auto
  let ?data = "subscriptionData (the (req_plan_id r)) (now e) endDate p (amount (ledger s ! i))"
  obtain ou us' where upd: "findByIdAndUpdate (uid ru) ?data (users s) = (ou, us')"
    by (cases "findByIdAndUpdate (uid ru) ?data (users s)")
  have "ou \<noteq> None"
  proof
    assume "ou = None"
    with fields i open_entry v c upd have "snd (sub_verify_payment e ru r s) = (s, [])"
      by (simp add: sub_verify_payment_def Let_def)
    then show False by (rule unchanged)
  qed
  then obtain u' where u': "ou = Some u'" by auto
  have act: "hasActiveSubscription u' (now e)"
  proof (rule ccontr)
    assume "\<not> hasActiveSubscription u' (now e)"
    with fields i open_entry v c upd u' have "snd (sub_verify_payment e ru r s) = (s, [])"
      by (simp add: sub_verify_payment_def Let_def)
    then show False by (rule unchanged)
  qed
  from run fields i open_entry v c upd u' act
  have res: "fst resp = 200" "users s' = us'"
            "ledger s' = (ledger s)[i := (ledger s ! i)
                \<lparr>razorpay_payment_id := p,
                 razorpay_signature := (if truthy (req_signature r) then req_signature r
                                        else Some (m @ ''_verified'')),
                 txn_status := Completed, updated_at := now e\<rparr>]"
    by (auto simp add: sub_verify_payment_def Let_def)
  from i have "i < length (ledger s)" by (simp add: findOne_Some)
  with res have completed: "txn_status (ledger s' ! i) = Completed" by simp
  from upd u' obtain u where u: "findById (uid ru) (users s) = Some u"
    by (cases "findById (uid ru) (users s)") (auto simp add: findByIdAndUpdate_absent)
  from findByIdAndUpdate_found [OF u, of ?data] upd u'
  have "findById (uid ru) us' = Some u'" by simp
  with res act i completed show ?thesis by blast
qed

text \<open>
  Claim C2.  A successful verification writes the completed ledger entry and the user's
  subscription as one unit, so that a completed entry without an active subscription
  cannot arise.  The webhook path of routes/subscription.js makes the two writes one after
  the other outside any transaction and does not look at the result of the second.  For the
  pending checkout of a user who has since deleted the account, a correctly signed
  \<^verbatim>\<open>payment.captured\<close> event is answered with 200 \<^verbatim>\<open>completed\<close>: the entry is
  completed and no user holds a subscription.  (The client path throws on the absent user
  and rolls the entry back.)
\<close>

theorem webhook_completes_entry_without_subscription:
  "sub_webhook example_env (example_hook ''payment.captured'') example_db_user_deleted =
     ((200, HookStatus ''completed''),
      \<lparr>ledger = [example_txn\<lparr>razorpay_payment_id := Some ''pay_1'',
                   razorpay_signature := Some ''webhook_verified'',
                   txn_status := Completed, updated_at := 1705312800000\<rparr>],
       users = []\<rparr>)"
  by (simp add: sub_webhook_def sub_webhook_rejected_def truthy_def example_env_def
        example_hook_def example_entity_def example_db_user_deleted_def example_txn_def
        example_end_date findByIdAndUpdate_def)

subsection \<open>Order creation\<close>

text \<open>The handler of routes/business.js turns an active subscriber away and otherwise, when
  the gateway creates the order for a plan of the catalogue, appends one pending entry.\<close>

lemma biz_create_order_rejects_active:
  assumes "email_verified ru" "SUBSCRIPTION_PLANS p = Some pl" "hasActiveSubscription ru (now e)"
  shows "biz_create_order e ru (Some p) s =
     ((400, AlreadyActive ''You already have an active subscription''
              (getSubscriptionInfo (tza e) (now e) ru)), s)"
proof -
  from assms(2) have "p \<noteq> []" by (auto simp add: no_plan_without_name)
  with assms show ?thesis by (simp add: biz_create_order_def truthy_def)
qed

lemma biz_create_order_pending:
  assumes "email_verified ru" "SUBSCRIPTION_PLANS p = Some pl" "price pl = Some amt"
    "\<not> hasActiveSubscription ru (now e)"
    "orders_create e (Some amt) (Some ''INR'') = Inr razorpayOrder"
  shows "\<exists>t. snd (biz_create_order e ru (Some p) s) = s\<lparr>ledger := ledger s @ [t]\<rparr> \<and>
       txn_status t = Pending \<and> razorpay_order_id t = Some (order_id razorpayOrder) \<and>
       user_id t = uid ru \<and> plan_id t = p"
proof -
  let ?t = "\<lparr>transaction_id = generated_transaction_id e, user_id = uid ru, plan_id = p,
              razorpay_payment_id = None, razorpay_order_id = Some (order_id razorpayOrder),
              razorpay_signature = None, amount = amt, txn_currency = ''INR'',
              txn_status = Pending, created_at = now e, updated_at = now e\<rparr>"
  from assms(2) have "p \<noteq> []" by (auto simp add: no_plan_without_name)
  with assms have "snd (biz_create_order e ru (Some p) s) = s\<lparr>ledger := ledger s @ [?t]\<rparr>"
    by (simp add: biz_create_order_def truthy_def Let_def)
  then show ?thesis by (intro exI [of _ ?t]) simp
qed

text \<open>
  Claim C6.  Order creation for a user whose subscription is active at request time is
  rejected and adds no ledger entry; without an active subscription and with an existing
  plan it adds a pending entry.  The handler of routes/subscription.js never consults the
  user's subscription: the example subscriber, active until 2024-02-01, orders the basic
  plan on 2024-01-15 and receives 200 with the order data, and the ledger has a new pending
  entry.
\<close>

theorem sub_create_order_accepts_active_subscriber:
  "hasActiveSubscription example_active_user (now example_env) \<and>
   sub_create_order example_env example_active_user (Some ''basic'') example_db_completed =
     ((200, SubOrderData ''order_2'' 100 None ''TXN_2''
              \<lparr>spd_id = ''basic'', spd_name = Some ''Basic Plan'', spd_price = Some 1,
               spd_currency = None, spd_validity_period = None, spd_validity_type = None,
               spd_features =
                 [''Up to 50 invoices per month'', ''Basic invoice templates'',
                  ''Customer management'', ''Payment tracking'', ''Email support''],
               spd_is_popular = False\<rparr>
              (Some ''rzp_test_key'')),
      \<lparr>ledger = [example_completed_txn,
                 \<lparr>transaction_id = ''TXN_2'', user_id = 7, plan_id = ''basic'',
                  razorpay_payment_id = None, razorpay_order_id = Some ''order_2'',
                  razorpay_signature = None, amount = 100, txn_currency = ''INR'',
                  txn_status = Pending, created_at = 1705312800000,
                  updated_at = 1705312800000\<rparr>],
       users = [example_active_user]\<rparr>)"
  by (simp add: sub_create_order_def hasActiveSubscription_def truthy_def example_env_def
        example_active_user_def example_user_def example_db_completed_def
        SUBSCRIPTION_PLANS_def catalogue_plan_def sub_formatPlanForClient_def rupees_def Let_def)

subsection \<open>Payment-failed events\<close>

text \<open>A \<^verbatim>\<open>payment.failed\<close> event never writes to the user collection.\<close>

lemma payment_failed_leaves_users:
  "event r = Some ''payment.failed'' \<Longrightarrow>
   users (snd (sub_webhook e r s)) = users s \<and> users (snd (biz_webhook e r s)) = users s"
  by (simp add: sub_webhook_def biz_webhook_def split: option.splits)

text \<open>
  Claim C7.  A completed ledger entry is never changed again; a \<^verbatim>\<open>payment.failed\<close> event
  marks the matching entry failed only while it is pending.  Both webhook handlers update
  the first entry with the event's order id whatever its status: a correctly signed
  \<^verbatim>\<open>payment.failed\<close> event for the order of a completed entry turns that entry into a
  failed one (the user's subscription stays as it is).
\<close>

theorem payment_failed_overwrites_completed:
  "sub_webhook example_env (example_hook ''payment.failed'') example_db_completed =
     ((200, HookStatus ''payment_failed_processed''),
      \<lparr>ledger = [example_completed_txn\<lparr>txn_status := Failed, updated_at := 1705312800000\<rparr>],
       users = [example_active_user]\<rparr>) \<and>
   biz_webhook example_env
       ((example_hook ''payment.failed'')
          \<lparr>x_razorpay_signature := Some (biz_webhook_secret @ ''{...}'')\<rparr>)
       example_db_completed =
     ((200, HookStatus ''failed-marked''),
      \<lparr>ledger = [example_completed_txn\<lparr>txn_status := Failed, updated_at := 1705312800000\<rparr>],
       users = [example_active_user]\<rparr>)"
  by (simp add: sub_webhook_def biz_webhook_def sub_webhook_rejected_def truthy_def
        mark_failed_def example_env_def example_hook_def example_entity_def
        example_db_completed_def example_completed_txn_def example_txn_def)

subsection \<open>Authoritative fallback\<close>

text \<open>
  Claim C4 says that without a satisfied signature check verification succeeds only if the
  gateway reports a payment of the request's order, and that a mismatched order id makes
  it fail.  routes/subscription.js asks the gateway for the payments of the order and
  takes the first captured one without comparing its order id: when the gateway's answer
  for \<^verbatim>\<open>order_1\<close> is a captured payment of \<^verbatim>\<open>order_9\<close>, the call is answered with
  200 and the entry is completed with that payment.  routes/business.js, given a payment
  of another order, fails as the claim says.
\<close>

theorem listed_payment_of_other_order_is_accepted:
  "orders_fetchPayments example_env_other_order ''order_1'' =
     Inr [\<lparr>payment_id = ''pay_9'', payment_order_id = ''order_9'',
           payment_status = ''captured''\<rparr>] \<and>
   req_order_id example_verify_req = Some ''order_1'' \<and>
   req_signature example_verify_req = None \<and>
   fst (sub_verify_payment_route example_env_other_order (Token 7) example_verify_req example_db) =
     (200, SubVerifyData ''Payment verified and subscription activated successfully!'' ''TXN_1''
             \<lparr>si_plan_type = Some ''basic'', si_status = Some Active,
              si_start_date = Some 1705312800000, si_end_date = Some 1707904800000,
              days_remaining = 30\<rparr>
             (Some example_sub_plan_details) (Some ''api_fetch'')) \<and>
   ledger (fst (snd (sub_verify_payment_route example_env_other_order (Token 7)
                       example_verify_req example_db))) =
     [example_txn\<lparr>razorpay_payment_id := Some ''pay_9'',
                  razorpay_signature := Some ''api_fetch_verified'',
                  txn_status := Completed, updated_at := 1705312800000\<rparr>] \<and>
   fst (biz_verify_payment_route example_env_other_order (Token 7) example_verify_req example_db) =
     (400, Failure ''Payment verification failed'')"
  by code_simp

text \<open>
  Claim C4, amended.  For a request the \<^verbatim>\<open>auth\<close> middleware has let through, whose
  resolved entry is not yet completed and whose signature check is not satisfied (no
  signature, or one that does not match):

  \<^item> routes/subscription.js answers with the verification failure, leaving the database
    as it was, exactly when the gateway lists no captured payment for the request's order
    (a rejected gateway call lists nothing).  When it lists one, the first captured payment
    of the list is taken, whatever order id it carries; with an end date computed and
    lying in the future, the answer is 200, the entry is completed with that payment's id,
    the user's stored subscription is the new active one, and one notification goes out.

  \<^item> routes/business.js answers with the verification failure, committing the entry as
    failed, exactly when the gateway does not report the request's payment as a captured
    payment of the request's order.  When it does, and the entry's plan gives an end date,
    the answer is 200, the entry is completed, the user's stored subscription is the new
    active one, and one notification goes out.
\<close>

theorem fallback_decides_verification:
  "(auth s c = Inr ru \<and> truthy (req_order_id r) \<and> truthy (req_plan_id r) \<and>
    findOne (\<lambda>t. razorpay_order_id t = Some (the (req_order_id r)) \<and> user_id t = uid ru)
      (ledger s) = Some i \<and>
    txn_status (ledger s ! i) \<noteq> Completed \<and>
    \<not> sub_signature_verified e (the (req_order_id r)) (req_payment_id r) (req_signature r)
    \<longrightarrow>
      ((sub_verify_payment_route e c r s =
          ((400, Failure ''Payment verification failed. Please try again or contact support.''),
           s, []))
        = (\<not> (\<exists>ps p. orders_fetchPayments e (the (req_order_id r)) = Inr ps \<and> p \<in> set ps \<and>
                     payment_status p = ''captured''))) \<and>
      (\<forall>ps p endDate.
          orders_fetchPayments e (the (req_order_id r)) = Inr ps \<and>
          find (\<lambda>p. payment_status p = ''captured'') ps = Some p \<and>
          sub_calculateEndDate (tza e) (the (req_plan_id r)) (now e) = Inr endDate \<and>
          now e < endDate
        \<longrightarrow> (\<exists>s' info.
              sub_verify_payment_route e c r s =
                ((200, SubVerifyData ''Payment verified and subscription activated successfully!''
                         (transaction_id (ledger s ! i)) info
                         (sub_getPlanDetails (the (req_plan_id r))) (Some ''api_fetch'')),
                 s',
                 [\<lparr>to_email = email ru, to_name = full_name ru,
                   n_plan_name = Option.bind (sub_getPlanDetails (the (req_plan_id r))) spd_name,
                   n_amount = of_int (amount (ledger s ! i)) / 100,
                   n_end_date = endDate\<rparr>]) \<and>
              ledger s' = (ledger s)[i := (ledger s ! i)
                 \<lparr>razorpay_payment_id := Some (payment_id p),
                  razorpay_signature :=
                    (if truthy (req_signature r) then req_signature r
                     else Some ''api_fetch_verified''),
                  txn_status := Completed, updated_at := now e\<rparr>] \<and>
              findById (uid ru) (users s') =
                Some (ru\<lparr>subscription :=
                        subscriptionData (the (req_plan_id r)) (now e) endDate
                          (Some (payment_id p)) (amount (ledger s ! i))\<rparr>) \<and>
              si_plan_type info = Some (the (req_plan_id r)) \<and>
              si_status info = Some Active \<and>
              si_start_date info = Some (now e) \<and>
              si_end_date info = Some endDate))) \<and>
   (auth s c = Inr ru \<and> truthy (req_order_id r) \<and> truthy (req_payment_id r) \<and>
    findOne (\<lambda>t. razorpay_order_id t = Some (the (req_order_id r)) \<and> user_id t = uid ru)
      (ledger s) = Some i \<and>
    txn_status (ledger s ! i) \<noteq> Completed \<and>
    biz_signature_verified e (the (req_order_id r)) (the (req_payment_id r)) (req_signature r)
      = Inr False
    \<longrightarrow>
      ((biz_verify_payment_route e c r s =
          ((400, Failure ''Payment verification failed''),
           s\<lparr>ledger := (ledger s)[i := (ledger s ! i)
                 \<lparr>txn_status := Failed, updated_at := now e\<rparr>]\<rparr>, []))
        = (\<not> (\<exists>p. payments_fetch e (the (req_payment_id r)) = Inr p \<and>
                  payment_order_id p = the (req_order_id r) \<and>
                  payment_status p = ''captured''))) \<and>
      (\<forall>p endDate.
          payments_fetch e (the (req_payment_id r)) = Inr p \<and>
          payment_order_id p = the (req_order_id r) \<and> payment_status p = ''captured'' \<and>
          biz_calculateEndDate (tza e) (plan_id (ledger s ! i)) (now e) = Inr (Some endDate)
        \<longrightarrow> (\<exists>s' info.
              biz_verify_payment_route e c r s =
                ((200, BizVerifyData ''Payment verified and subscription activated successfully''
                         (transaction_id (ledger s ! i)) info
                         (map_option (biz_formatPlanForClient (plan_id (ledger s ! i)))
                            (SUBSCRIPTION_PLANS (plan_id (ledger s ! i))))),
                 s',
                 [\<lparr>to_email = email ru, to_name = full_name ru,
                   n_plan_name = Option.bind (SUBSCRIPTION_PLANS (plan_id (ledger s ! i))) plan_name,
                   n_amount = of_int (amount (ledger s ! i)) / 100,
                   n_end_date = endDate\<rparr>]) \<and>
              ledger s' = (ledger s)[i := (ledger s ! i)
                 \<lparr>razorpay_payment_id := Some (the (req_payment_id r)),
                  razorpay_signature :=
                    (if truthy (req_signature r) then req_signature r
                     else Some ''verified_via_api''),
                  txn_status := Completed, updated_at := now e\<rparr>] \<and>
              findById (uid ru) (users s') =
                Some (ru\<lparr>subscription :=
                        subscriptionData (plan_id (ledger s ! i)) (now e) endDate
                          (Some (the (req_payment_id r))) (amount (ledger s ! i))\<rparr>) \<and>
              si_plan_type info = Some (plan_id (ledger s ! i)) \<and>
              si_status info = Some Active \<and>
              si_start_date info = Some (now e) \<and>
              si_end_date info = Some endDate)))"
proof (intro conjI impI)
  let ?o = "the (req_order_id r)" and ?pl = "the (req_plan_id r)"
  let ?vf = "((400, Failure ''Payment verification failed. Please try again or contact support.''),
              s, [])"
  assume h: "auth s c = Inr ru \<and> truthy (req_order_id r) \<and> truthy (req_plan_id r) \<and>
    findOne (\<lambda>t. razorpay_order_id t = Some ?o \<and> user_id t = uid ru) (ledger s) = Some i \<and>
    txn_status (ledger s ! i) \<noteq> Completed \<and>
    \<not> sub_signature_verified e ?o (req_payment_id r) (req_signature r)"
  then have stored: "findById (uid ru) (users s) = Some ru" by (blast intro: auth_found)
  from h have route: "sub_verify_payment_route e c r s = sub_verify_payment e ru r s"
    by (simp add: sub_verify_payment_route_def)
  from h have ver: "sub_verify e ?o (req_payment_id r) (req_signature r) =
      (case sub_api_verified e ?o of
         None \<Rightarrow> None
       | Some capturedPayment \<Rightarrow> Some (''api_fetch'', Some (payment_id capturedPayment)))"
    by (simp add: sub_verify_def)
  show "(sub_verify_payment_route e c r s = ?vf)
        = (\<not> (\<exists>ps p. orders_fetchPayments e ?o = Inr ps \<and> p \<in> set ps \<and>
                     payment_status p = ''captured''))"
  proof (cases "sub_api_verified e ?o")
    case None
    with h ver have "sub_verify_payment e ru r s = ?vf"
      by (simp add: sub_verify_payment_def Let_def)
    moreover from None have "\<not> (\<exists>ps p. orders_fetchPayments e ?o = Inr ps \<and> p \<in> set ps \<and>
                     payment_status p = ''captured'')"
      by (auto simp add: sub_api_verified_def find_None_iff split: sum.splits)
    ultimately show ?thesis using route by simp
  next
    case (Some cp)
    with h ver have "fst (fst (sub_verify_payment e ru r s)) \<noteq> 400"
      by (simp add: sub_verify_payment_def Let_def split: sum.splits prod.splits option.splits)
    then have "sub_verify_payment e ru r s \<noteq> ?vf" by auto
    moreover from Some have "\<exists>ps p. orders_fetchPayments e ?o = Inr ps \<and> p \<in> set ps \<and>
                     payment_status p = ''captured''"
      by (auto simp add: sub_api_verified_def split: sum.splits dest: find_SomeD)
    ultimately show ?thesis using route by simp
  qed
  show "\<forall>ps p endDate.
          orders_fetchPayments e ?o = Inr ps \<and>
          find (\<lambda>p. payment_status p = ''captured'') ps = Some p \<and>
          sub_calculateEndDate (tza e) ?pl (now e) = Inr endDate \<and>
          now e < endDate
        \<longrightarrow> (\<exists>s' info.
              sub_verify_payment_route e c r s =
                ((200, SubVerifyData ''Payment verified and subscription activated successfully!''
                         (transaction_id (ledger s ! i)) info
                         (sub_getPlanDetails ?pl) (Some ''api_fetch'')),
                 s',
                 [\<lparr>to_email = email ru, to_name = full_name ru,
                   n_plan_name = Option.bind (sub_getPlanDetails ?pl) spd_name,
                   n_amount = of_int (amount (ledger s ! i)) / 100,
                   n_end_date = endDate\<rparr>]) \<and>
              ledger s' = (ledger s)[i := (ledger s ! i)
                 \<lparr>razorpay_payment_id := Some (payment_id p),
                  razorpay_signature :=
                    (if truthy (req_signature r) then req_signature r
                     else Some ''api_fetch_verified''),
                  txn_status := Completed, updated_at := now e\<rparr>] \<and>
              findById (uid ru) (users s') =
                Some (ru\<lparr>subscription :=
                        subscriptionData ?pl (now e) endDate
                          (Some (payment_id p)) (amount (ledger s ! i))\<rparr>) \<and>
              si_plan_type info = Some ?pl \<and>
              si_status info = Some Active \<and>
              si_start_date info = Some (now e) \<and>
              si_end_date info = Some endDate)"
  proof (intro allI impI)
    fix ps p endDate
    assume g: "orders_fetchPayments e ?o = Inr ps \<and>
          find (\<lambda>p. payment_status p = ''captured'') ps = Some p \<and>
          sub_calculateEndDate (tza e) ?pl (now e) = Inr endDate \<and>
          now e < endDate"
    let ?data = "subscriptionData ?pl (now e) endDate (Some (payment_id p)) (amount (ledger s ! i))"
    let ?u = "ru\<lparr>subscription := ?data\<rparr>"
    from findByIdAndUpdate_found [OF stored, of ?data]
    obtain us' where upd: "findByIdAndUpdate (uid ru) ?data (users s) = (Some ?u, us')"
      and kept: "findById (uid ru) us' = Some ?u"
      by (cases "findByIdAndUpdate (uid ru) ?data (users s)") auto
    let ?s' = "s\<lparr>ledger := (ledger s)[i := (ledger s ! i)
                 \<lparr>razorpay_payment_id := Some (payment_id p),
                  razorpay_signature :=
                    (if truthy (req_signature r) then req_signature r
                     else Some ''api_fetch_verified''),
                  txn_status := Completed, updated_at := now e\<rparr>],
               users := us'\<rparr>"
    from g have api: "sub_api_verified e ?o = Some p" by (simp add: sub_api_verified_def)
    from g have active: "hasActiveSubscription ?u (now e)"
      by (simp add: hasActiveSubscription_def subscriptionData_def)
    from h ver api g upd active
    have "sub_verify_payment e ru r s =
            ((200, SubVerifyData ''Payment verified and subscription activated successfully!''
                     (transaction_id (ledger s ! i)) (getSubscriptionInfo (tza e) (now e) ?u)
                     (sub_getPlanDetails ?pl) (Some ''api_fetch'')),
             ?s',
             [\<lparr>to_email = email ru, to_name = full_name ru,
               n_plan_name = Option.bind (sub_getPlanDetails ?pl) spd_name,
               n_amount = of_int (amount (ledger s ! i)) / 100,
               n_end_date = endDate\<rparr>])"
      by (simp add: sub_verify_payment_def Let_def)
    with route kept show "\<exists>s' info.
              sub_verify_payment_route e c r s =
                ((200, SubVerifyData ''Payment verified and subscription activated successfully!''
                         (transaction_id (ledger s ! i)) info
                         (sub_getPlanDetails ?pl) (Some ''api_fetch'')),
                 s',
                 [\<lparr>to_email = email ru, to_name = full_name ru,
                   n_plan_name = Option.bind (sub_getPlanDetails ?pl) spd_name,
                   n_amount = of_int (amount (ledger s ! i)) / 100,
                   n_end_date = endDate\<rparr>]) \<and>
              ledger s' = (ledger s)[i := (ledger s ! i)
                 \<lparr>razorpay_payment_id := Some (payment_id p),
                  razorpay_signature :=
                    (if truthy (req_signature r) then req_signature r
                     else Some ''api_fetch_verified''),
                  txn_status := Completed, updated_at := now e\<rparr>] \<and>
              findById (uid ru) (users s') = Some ?u \<and>
              si_plan_type info = Some ?pl \<and>
              si_status info = Some Active \<and>
              si_start_date info = Some (now e) \<and>
              si_end_date info = Some endDate"
      by (intro exI [of _ ?s'] exI [of _ "getSubscriptionInfo (tza e) (now e) ?u"])
         (simp add: getSubscriptionInfo_def subscriptionData_def)
  qed
next
  let ?o = "the (req_order_id r)" and ?pid = "the (req_payment_id r)"
  let ?failed = "s\<lparr>ledger := (ledger s)[i := (ledger s ! i)
                     \<lparr>txn_status := Failed, updated_at := now e\<rparr>]\<rparr>"
  let ?vf = "((400, Failure ''Payment verification failed''), ?failed, [])"
  assume h: "auth s c = Inr ru \<and> truthy (req_order_id r) \<and> truthy (req_payment_id r) \<and>
    findOne (\<lambda>t. razorpay_order_id t = Some ?o \<and> user_id t = uid ru) (ledger s) = Some i \<and>
    txn_status (ledger s ! i) \<noteq> Completed \<and>
    biz_signature_verified e ?o ?pid (req_signature r) = Inr False"
  then have stored: "findById (uid ru) (users s) = Some ru" by (blast intro: auth_found)
  from h have route: "biz_verify_payment_route e c r s = biz_verify_payment e ru r s"
    by (simp add: biz_verify_payment_route_def)
  from h have ver: "biz_verify e ?o ?pid (req_signature r) = Inr (biz_api_verified e ?o ?pid)"
    by (simp add: biz_verify_def)
  have api: "biz_api_verified e ?o ?pid =
      (\<exists>p. payments_fetch e ?pid = Inr p \<and> payment_order_id p = ?o \<and>
           payment_status p = ''captured'')"
    by (simp add: biz_api_verified_def split: sum.splits)
  show "(biz_verify_payment_route e c r s = ?vf)
        = (\<not> (\<exists>p. payments_fetch e ?pid = Inr p \<and> payment_order_id p = ?o \<and>
                  payment_status p = ''captured''))"
  proof (cases "biz_api_verified e ?o ?pid")
    case False
    with h ver have "biz_verify_payment e ru r s = ?vf"
      by (simp add: biz_verify_payment_def Let_def)
    with False route api show ?thesis by simp
  next
    case True
    with h ver have "fst (fst (biz_verify_payment e ru r s)) \<noteq> 400"
      by (simp add: biz_verify_payment_def Let_def split: sum.splits prod.splits option.splits)
    then have "biz_verify_payment e ru r s \<noteq> ?vf" by auto
    with True route api show ?thesis by simp
  qed
  show "\<forall>p endDate.
          payments_fetch e ?pid = Inr p \<and>
          payment_order_id p = ?o \<and> payment_status p = ''captured'' \<and>
          biz_calculateEndDate (tza e) (plan_id (ledger s ! i)) (now e) = Inr (Some endDate)
        \<longrightarrow> (\<exists>s' info.
              biz_verify_payment_route e c r s =
                ((200, BizVerifyData ''Payment verified and subscription activated successfully''
                         (transaction_id (ledger s ! i)) info
                         (map_option (biz_formatPlanForClient (plan_id (ledger s ! i)))
                            (SUBSCRIPTION_PLANS (plan_id (ledger s ! i))))),
                 s',
                 [\<lparr>to_email = email ru, to_name = full_name ru,
                   n_plan_name = Option.bind (SUBSCRIPTION_PLANS (plan_id (ledger s ! i))) plan_name,
                   n_amount = of_int (amount (ledger s ! i)) / 100,
                   n_end_date = endDate\<rparr>]) \<and>
              ledger s' = (ledger s)[i := (ledger s ! i)
                 \<lparr>razorpay_payment_id := Some ?pid,
                  razorpay_signature :=
                    (if truthy (req_signature r) then req_signature r
                     else Some ''verified_via_api''),
                  txn_status := Completed, updated_at := now e\<rparr>] \<and>
              findById (uid ru) (users s') =
                Some (ru\<lparr>subscription :=
                        subscriptionData (plan_id (ledger s ! i)) (now e) endDate
                          (Some ?pid) (amount (ledger s ! i))\<rparr>) \<and>
              si_plan_type info = Some (plan_id (ledger s ! i)) \<and>
              si_status info = Some Active \<and>
              si_start_date info = Some (now e) \<and>
              si_end_date info = Some endDate)"
  proof (intro allI impI)
    fix p endDate
    assume g: "payments_fetch e ?pid = Inr p \<and>
          payment_order_id p = ?o \<and> payment_status p = ''captured'' \<and>
          biz_calculateEndDate (tza e) (plan_id (ledger s ! i)) (now e) = Inr (Some endDate)"
    let ?data = "subscriptionData (plan_id (ledger s ! i)) (now e) endDate (Some ?pid)
                   (amount (ledger s ! i))"
    let ?u = "ru\<lparr>subscription := ?data\<rparr>"
    from findByIdAndUpdate_found [OF stored, of ?data]
    obtain us' where upd: "findByIdAndUpdate (uid ru) ?data (users s) = (Some ?u, us')"
      and kept: "findById (uid ru) us' = Some ?u"
      by (cases "findByIdAndUpdate (uid ru) ?data (users s)") auto
    let ?s' = "s\<lparr>ledger := (ledger s)[i := (ledger s ! i)
                 \<lparr>razorpay_payment_id := Some ?pid,
                  razorpay_signature :=
                    (if truthy (req_signature r) then req_signature r
                     else Some ''verified_via_api''),
                  txn_status := Completed, updated_at := now e\<rparr>],
               users := us'\<rparr>"
    from g api have verified: "biz_api_verified e ?o ?pid" by blast
    from h ver verified g upd
    have "biz_verify_payment e ru r s =
            ((200, BizVerifyData ''Payment verified and subscription activated successfully''
                     (transaction_id (ledger s ! i)) (getSubscriptionInfo (tza e) (now e) ?u)
                     (map_option (biz_formatPlanForClient (plan_id (ledger s ! i)))
                        (SUBSCRIPTION_PLANS (plan_id (ledger s ! i))))),
             ?s',
             [\<lparr>to_email = email ru, to_name = full_name ru,
               n_plan_name = Option.bind (SUBSCRIPTION_PLANS (plan_id (ledger s ! i))) plan_name,
               n_amount = of_int (amount (ledger s ! i)) / 100,
               n_end_date = endDate\<rparr>])"
      by (simp add: biz_verify_payment_def Let_def)
    with route kept show "\<exists>s' info.
              biz_verify_payment_route e c r s =
                ((200, BizVerifyData ''Payment verified and subscription activated successfully''
                         (transaction_id (ledger s ! i)) info
                         (map_option (biz_formatPlanForClient (plan_id (ledger s ! i)))
                            (SUBSCRIPTION_PLANS (plan_id (ledger s ! i))))),
                 s',
                 [\<lparr>to_email = email ru, to_name = full_name ru,
                   n_plan_name = Option.bind (SUBSCRIPTION_PLANS (plan_id (ledger s ! i))) plan_name,
                   n_amount = of_int (amount (ledger s ! i)) / 100,
                   n_end_date = endDate\<rparr>]) \<and>
              ledger s' = (ledger s)[i := (ledger s ! i)
                 \<lparr>razorpay_payment_id := Some ?pid,
                  razorpay_signature :=
                    (if truthy (req_signature r) then req_signature r
                     else Some ''verified_via_api''),
                  txn_status := Completed, updated_at := now e\<rparr>] \<and>
              findById (uid ru) (users s') = Some ?u \<and>
              si_plan_type info = Some (plan_id (ledger s ! i)) \<and>
              si_status info = Some Active \<and>
              si_start_date info = Some (now e) \<and>
              si_end_date info = Some endDate"
      by (intro exI [of _ ?s'] exI [of _ "getSubscriptionInfo (tza e) (now e) ?u"])
         (simp add: getSubscriptionInfo_def subscriptionData_def)
  qed
qed

text \<open>
  The example user's pending checkout, verified without a signature.  With the gateway
  reporting the captured payment of the order, both routers activate the basic plan
  (thirty days in routes/subscription.js, one month to the end of the day in
  routes/business.js).  With a gateway that lists nothing, routes/subscription.js answers
  400 and changes nothing; with a gateway that reports the payment under another order,
  routes/business.js answers 400 and marks the entry failed.
\<close>

theorem fallback_decides_verification_witness:
  "sub_verify_payment_route example_env_captured (Token 7) example_verify_req example_db =
     ((200, SubVerifyData ''Payment verified and subscription activated successfully!'' ''TXN_1''
              \<lparr>si_plan_type = Some ''basic'', si_status = Some Active,
               si_start_date = Some 1705312800000, si_end_date = Some 1707904800000,
               days_remaining = 30\<rparr>
              (Some example_sub_plan_details) (Some ''api_fetch'')),
      example_db_client_activated,
      [\<lparr>to_email = ''owner@example.com'', to_name = ''Owner'', n_plan_name = Some ''Basic Plan'',
        n_amount = 1, n_end_date = 1707904800000\<rparr>]) \<and>
   sub_verify_payment_route example_env (Token 7) example_verify_req example_db =
     ((400, Failure ''Payment verification failed. Please try again or contact support.''),
      example_db, []) \<and>
   biz_verify_payment_route example_env_captured (Token 7) example_verify_req example_db =
     ((200, BizVerifyData ''Payment verified and subscription activated successfully'' ''TXN_1''
              \<lparr>si_plan_type = Some ''basic'', si_status = Some Active,
               si_start_date = Some 1705312800000, si_end_date = Some 1708041599999,
               days_remaining = 31\<rparr>
              (Some example_biz_plan_details)),
      \<lparr>ledger = [example_txn\<lparr>razorpay_payment_id := Some ''pay_1'',
                   razorpay_signature := Some ''verified_via_api'',
                   txn_status := Completed, updated_at := 1705312800000\<rparr>],
       users = [example_user\<lparr>subscription :=
                 \<lparr>plan_type = Some ''basic'', start_date = Some 1705312800000,
                  end_date = Some 1708041599999, status = Some Active,
                  razorpay_subscription_id = Some ''pay_1'', amount_paid = Some 1\<rparr>\<rparr>]\<rparr>,
      [\<lparr>to_email = ''owner@example.com'', to_name = ''Owner'', n_plan_name = Some ''Basic Plan'',
        n_amount = 1, n_end_date = 1708041599999\<rparr>]) \<and>
   biz_verify_payment_route example_env_other_order (Token 7) example_verify_req example_db =
     ((400, Failure ''Payment verification failed''),
      \<lparr>ledger = [example_txn\<lparr>txn_status := Failed, updated_at := 1705312800000\<rparr>],
       users = [example_user]\<rparr>, [])"
proof -
  let ?pay = "\<lparr>payment_id = ''pay_1'', payment_order_id = ''order_1'',
                payment_status = ''captured''\<rparr>"
  let ?R = example_verify_req
  have request: "auth example_db (Token 7) = Inr example_user \<and>
      truthy (req_order_id ?R) \<and> truthy (req_plan_id ?R) \<and>
      findOne (\<lambda>t. razorpay_order_id t = Some (the (req_order_id ?R)) \<and>
                   user_id t = uid example_user) (ledger example_db) = Some 0 \<and>
      txn_status (ledger example_db ! 0) \<noteq> Completed \<and>
      \<not> sub_signature_verified e (the (req_order_id ?R)) (req_payment_id ?R) (req_signature ?R)"
    for e
    by (simp add: auth_def findById_def example_verify_req_def example_user_def example_db_def
          example_txn_def truthy_def sub_signature_verified_def)
  have biz_request: "auth example_db (Token 7) = Inr example_user \<and>
      truthy (req_order_id ?R) \<and> truthy (req_payment_id ?R) \<and>
      findOne (\<lambda>t. razorpay_order_id t = Some (the (req_order_id ?R)) \<and>
                   user_id t = uid example_user) (ledger example_db) = Some 0 \<and>
      txn_status (ledger example_db ! 0) \<noteq> Completed \<and>
      biz_signature_verified e (the (req_order_id ?R)) (the (req_payment_id ?R))
        (req_signature ?R) = Inr False"
    for e
    by (simp add: auth_def findById_def example_verify_req_def example_user_def example_db_def
          example_txn_def truthy_def biz_signature_verified_def)
  note sub_captured = fallback_decides_verification
      [of example_db "Token 7" example_user ?R 0 example_env_captured,
       THEN conjunct1, THEN mp, OF request]
  note sub_nothing = fallback_decides_verification
      [of example_db "Token 7" example_user ?R 0 example_env,
       THEN conjunct1, THEN mp, OF request]
  note biz_captured = fallback_decides_verification
      [of example_db "Token 7" example_user ?R 0 example_env_captured,
       THEN conjunct2, THEN mp, OF biz_request]
  note biz_other = fallback_decides_verification
      [of example_db "Token 7" example_user ?R 0 example_env_other_order,
       THEN conjunct2, THEN mp, OF biz_request]
  have listed: "orders_fetchPayments example_env_captured (the (req_order_id ?R)) = Inr [?pay] \<and>
      find (\<lambda>p. payment_status p = ''captured'') [?pay] = Some ?pay \<and>
      sub_calculateEndDate (tza example_env_captured) (the (req_plan_id ?R))
        (now example_env_captured) = Inr 1707904800000 \<and>
      now example_env_captured < 1707904800000"
    by (simp add: example_env_captured_def example_env_def example_verify_req_def
          example_end_date)
  have fetched: "payments_fetch example_env_captured (the (req_payment_id ?R)) = Inr ?pay \<and>
      payment_order_id ?pay = the (req_order_id ?R) \<and> payment_status ?pay = ''captured'' \<and>
      biz_calculateEndDate (tza example_env_captured) (plan_id (ledger example_db ! 0))
        (now example_env_captured) = Inr (Some 1708041599999)"
    by (simp add: example_env_captured_def example_env_def example_verify_req_def
          example_db_def example_txn_def example_end_date_biz)
  have none_listed: "\<not> (\<exists>ps p. orders_fetchPayments example_env (the (req_order_id ?R)) = Inr ps \<and>
                      p \<in> set ps \<and> payment_status p = ''captured'')"
    by (auto simp add: example_env_def)
  have other: "\<not> (\<exists>p. payments_fetch example_env_other_order (the (req_payment_id ?R)) = Inr p \<and>
                    payment_order_id p = the (req_order_id ?R) \<and>
                    payment_status p = ''captured'')"
    by (auto simp add: example_env_other_order_def example_env_def example_verify_req_def)
  from sub_captured [THEN conjunct2, rule_format, OF listed]
  have a: "fst (fst (sub_verify_payment_route example_env_captured (Token 7) ?R example_db)) = 200"
    by auto
  from sub_nothing [THEN conjunct1] none_listed
  have b: "sub_verify_payment_route example_env (Token 7) ?R example_db =
     ((400, Failure ''Payment verification failed. Please try again or contact support.''),
      example_db, [])"
    by blast
  from biz_captured [THEN conjunct2, rule_format, OF fetched]
  have c: "fst (fst (biz_verify_payment_route example_env_captured (Token 7) ?R example_db)) = 200"
    by auto
  from biz_other [THEN conjunct1] other
  have d: "biz_verify_payment_route example_env_other_order (Token 7) ?R example_db =
     ((400, Failure ''Payment verification failed''),
      example_db\<lparr>ledger := (ledger example_db)[0 := (ledger example_db ! 0)
         \<lparr>txn_status := Failed, updated_at := now example_env_other_order\<rparr>]\<rparr>, [])"
    by blast
  have d': "example_db\<lparr>ledger := (ledger example_db)[0 := (ledger example_db ! 0)
         \<lparr>txn_status := Failed, updated_at := now example_env_other_order\<rparr>]\<rparr> =
      \<lparr>ledger = [example_txn\<lparr>txn_status := Failed, updated_at := 1705312800000\<rparr>],
       users = [example_user]\<rparr>"
    by (simp add: example_db_def example_env_other_order_def example_env_def)
  have a': "sub_verify_payment_route example_env_captured (Token 7) ?R example_db =
     ((200, SubVerifyData ''Payment verified and subscription activated successfully!'' ''TXN_1''
              \<lparr>si_plan_type = Some ''basic'', si_status = Some Active,
               si_start_date = Some 1705312800000, si_end_date = Some 1707904800000,
               days_remaining = 30\<rparr>
              (Some example_sub_plan_details) (Some ''api_fetch'')),
      example_db_client_activated,
      [\<lparr>to_email = ''owner@example.com'', to_name = ''Owner'', n_plan_name = Some ''Basic Plan'',
        n_amount = 1, n_end_date = 1707904800000\<rparr>])"
    by code_simp
  have c': "biz_verify_payment_route example_env_captured (Token 7) ?R example_db =
     ((200, BizVerifyData ''Payment verified and subscription activated successfully'' ''TXN_1''
              \<lparr>si_plan_type = Some ''basic'', si_status = Some Active,
               si_start_date = Some 1705312800000, si_end_date = Some 1708041599999,
               days_remaining = 31\<rparr>
              (Some example_biz_plan_details)),
      \<lparr>ledger = [example_txn\<lparr>razorpay_payment_id := Some ''pay_1'',
                   razorpay_signature := Some ''verified_via_api'',
                   txn_status := Completed, updated_at := 1705312800000\<rparr>],
       users = [example_user\<lparr>subscription :=
                 \<lparr>plan_type = Some ''basic'', start_date = Some 1705312800000,
                  end_date = Some 1708041599999, status = Some Active,
                  razorpay_subscription_id = Some ''pay_1'', amount_paid = Some 1\<rparr>\<rparr>]\<rparr>,
      [\<lparr>to_email = ''owner@example.com'', to_name = ''Owner'', n_plan_name = Some ''Basic Plan'',
        n_amount = 1, n_end_date = 1708041599999\<rparr>])"
    by code_simp
  from a a' b c c' d [unfolded d'] show ?thesis by simp
qed

subsection \<open>Concurrent triggers\<close>

text \<open>Run one after the other on the same database, the two steps of the capture branch are
  the webhook handler.\<close>

lemma sub_webhook_in_two_steps:
  assumes "\<not> sub_webhook_rejected e r" "event r = Some ''payment.captured''"
    "hook_payment r = Some payment"
  shows "sub_webhook e r s =
     (case sub_capture_read payment s of
        Inl resp \<Rightarrow> (resp, s)
      | Inr read \<Rightarrow> sub_capture_write e payment read s)"
proof (cases "findOne (\<lambda>t. razorpay_order_id t = entity_order_id payment) (ledger s)")
  case None
  with assms show ?thesis by (simp add: sub_webhook_def sub_capture_read_def)
next
  case (Some i)
  with assms show ?thesis
    by (simp add: sub_webhook_def sub_capture_read_def sub_capture_write_def Let_def)
qed

text \<open>
  Claim C9.  When the client call and a \<^verbatim>\<open>payment.captured\<close> webhook for the same order
  are delivered concurrently, the subscription is activated exactly once, and two attempts
  never both see the entry pending and both go on to activate.  The webhook tests the
  status on what \<^verbatim>\<open>findOne\<close> returned and writes unconditionally afterwards.  In this
  schedule for the example user's pending checkout the webhook reads the entry while it is
  pending; the client call then runs from start to commit (it reads the entry pending as
  well, verifies through the gateway, completes the entry, activates the subscription from
  2024-01-15T10:00:00Z and notifies the user); one minute later the webhook's writes
  arrive, are answered with 200 \<^verbatim>\<open>completed\<close>, rewrite the completed entry and replace
  the subscription by one that starts at 2024-01-15T10:01:00Z.
\<close>

theorem stale_webhook_write_activates_again:
  "sub_capture_read example_entity example_db = Inr (0, example_txn) \<and>
   txn_status example_txn = Pending \<and>
   sub_verify_payment_route example_env_captured (Token 7) example_verify_req example_db =
     ((200, SubVerifyData ''Payment verified and subscription activated successfully!'' ''TXN_1''
              \<lparr>si_plan_type = Some ''basic'', si_status = Some Active,
               si_start_date = Some 1705312800000, si_end_date = Some 1707904800000,
               days_remaining = 30\<rparr>
              (Some example_sub_plan_details) (Some ''api_fetch'')),
      example_db_client_activated,
      [\<lparr>to_email = ''owner@example.com'', to_name = ''Owner'', n_plan_name = Some ''Basic Plan'',
        n_amount = 1, n_end_date = 1707904800000\<rparr>]) \<and>
   sub_capture_write example_env_later example_entity (0, example_txn)
       example_db_client_activated =
     ((200, HookStatus ''completed''), example_db_webhook_activated) \<and>
   map subscription (users example_db_client_activated) =
     [\<lparr>plan_type = Some ''basic'', start_date = Some 1705312800000,
       end_date = Some 1707904800000, status = Some Active,
       razorpay_subscription_id = Some ''pay_1'', amount_paid = Some 1\<rparr>] \<and>
   map subscription (users example_db_webhook_activated) =
     [\<lparr>plan_type = Some ''basic'', start_date = Some 1705312860000,
       end_date = Some 1707904860000, status = Some Active,
       razorpay_subscription_id = Some ''pay_1'', amount_paid = Some 1\<rparr>]"
  by code_simp

text \<open>The same happens between two deliveries of the webhook: both read the entry pending,
  and the second write activates again.\<close>

lemma duplicate_webhooks_both_activate:
  "sub_capture_read example_entity example_db = Inr (0, example_txn) \<and>
   sub_capture_write example_env example_entity (0, example_txn) example_db =
     ((200, HookStatus ''completed''),
      \<lparr>ledger = [example_txn\<lparr>razorpay_payment_id := Some ''pay_1'',
                   razorpay_signature := Some ''webhook_verified'',
                   txn_status := Completed, updated_at := 1705312800000\<rparr>],
       users = users example_db_client_activated\<rparr>) \<and>
   sub_capture_write example_env_later example_entity (0, example_txn)
       \<lparr>ledger = [example_txn\<lparr>razorpay_payment_id := Some ''pay_1'',
                    razorpay_signature := Some ''webhook_verified'',
                    txn_status := Completed, updated_at := 1705312800000\<rparr>],
        users = users example_db_client_activated\<rparr> =
     ((200, HookStatus ''completed''), example_db_webhook_activated)"
  by code_simp

end
